theory Spec2Isabelle
  imports Complex_Main "HOL-Library.Word"
begin

section \<open>JavaScript strings\<close>

text \<open>
  A JavaScript string is a sequence of UTF-16 code units. The regular expressions of the
  scripts carry no \<open>u\<close> flag, so every character class below is a test on one code unit.
  \<open>js\<close> embeds an ASCII literal.
\<close>

type_synonym jschar = "16 word"
type_synonym jstring = "jschar list"

definition js :: "string \<Rightarrow> jstring" where
  "js s = map (\<lambda>c. of_nat (of_char c)) s"

text \<open>
  The class \<open>\s\<close> of a regular expression, which is also the set that
  \<open>String.prototype.trim\<close> strips: WhiteSpace and LineTerminator of ECMAScript.
\<close>

definition is_space :: "jschar \<Rightarrow> bool" where
  "is_space c =
     (let n = unat c in
        (9 \<le> n \<and> n \<le> 13) \<or> n = 32 \<or> n = 160 \<or> n = 5760 \<or> (8192 \<le> n \<and> n \<le> 8202) \<or>
        n = 8232 \<or> n = 8233 \<or> n = 8239 \<or> n = 8287 \<or> n = 12288 \<or> n = 65279)"

definition trim :: "jstring \<Rightarrow> jstring" where
  "trim s = rev (dropWhile is_space (rev (dropWhile is_space s)))"

section \<open>Text sanitizer\<close>

text \<open>
  The character class of the last replacement of \<open>sanitizeText\<close>: tab, line feed,
  carriage return, 0x20 to 0x7E, and 0xA0 to 0xFFFF. Every code unit outside it is deleted.
\<close>

definition in_safe_class :: "jschar \<Rightarrow> bool" where
  "in_safe_class c =
     (let n = unat c in n = 9 \<or> n = 10 \<or> n = 13 \<or> (32 \<le> n \<and> n \<le> 126) \<or> 160 \<le> n)"

definition replace_char :: "jschar \<Rightarrow> jschar \<Rightarrow> jstring \<Rightarrow> jstring" where
  "replace_char a b s = map (\<lambda>c. if c = a then b else c) s"

definition sanitizeText :: "jstring \<Rightarrow> jstring" where
  "sanitizeText text =
     filter in_safe_class
       (replace_char 13 10
         (replace_char 12 10
           (filter (\<lambda>c. c \<noteq> 0) text)))"

text \<open>\<open>.replace(/\r\n/g, ' ')\<close>: matches are found left to right and do not overlap.\<close>

fun replace_crlf :: "jstring \<Rightarrow> jstring" where
  "replace_crlf [] = []"
| "replace_crlf [c] = [c]"
| "replace_crlf (c # d # cs) =
     (if c = 13 \<and> d = 10 then 32 # replace_crlf cs else c # replace_crlf (d # cs))"

text \<open>
  \<open>.replace(/\s\s+/g, ' ')\<close>: a match starts at a white space code unit that is followed
  by another one and, being greedy, takes the whole run; a run of length one is left as
  it is.
\<close>

function collapse_spaces :: "jstring \<Rightarrow> jstring" where
  "collapse_spaces [] = []"
| "collapse_spaces (c # cs) =
     (if is_space c \<and> cs \<noteq> [] \<and> is_space (hd cs)
      then 32 # collapse_spaces (dropWhile is_space cs)
      else c # collapse_spaces cs)"
  by pat_completeness auto
termination
  by (relation "measure length") (auto simp: length_dropWhile_le le_imp_less_Suc)

definition normalizeForOneLine :: "jstring \<Rightarrow> jstring" where
  "normalizeForOneLine text =
     trim
       (collapse_spaces
         (replace_char 9 32
           (replace_char 10 32
             (replace_char 13 32
               (replace_crlf
                 (replace_char 12 32
                   (filter (\<lambda>c. c \<noteq> 0) text)))))))"

definition sanitize :: "jstring \<Rightarrow> jstring" where
  "sanitize s = normalizeForOneLine (sanitizeText s)"


section \<open>JavaScript values\<close>

text \<open>
  Numbers. A finite Number is modelled by its exact value, a rational; negative zero is
  identified with zero. Reading a Number from a string is modelled without the rounding
  to binary64: the result is the value of the literal, which is the Number that JavaScript
  returns whenever that value is a binary64 (every integer of magnitude below \<open>2 ^ 53\<close>
  is), and it is NaN exactly when JavaScript returns NaN. Printing a Number is not
  modelled: \<open>String(n)\<close> is a builtin of the engine that the model takes as a parameter.
\<close>

datatype jsnum = Fin rat | NaN | PosInf | NegInf

text \<open>
  Values as \<open>JSON.parse\<close> and the scripts build them. An object is the list of its own
  enumerable properties in the order \<open>for ... in\<close> visits them; the keys of one object
  are distinct. Every object of the model has the prototype \<open>Object.prototype\<close>. The
  limits of an engine (the depth of the call stack, the memory) are not modelled, except
  for a recursion that never ends.
\<close>

datatype jsval =
    JUndefined
  | JNull
  | JBool bool
  | JNum jsnum
  | JStr jstring
  | JArr "jsval list"
  | JObj "(jstring \<times> jsval) list"

text \<open>
  A thrown \<open>Error\<close>: its \<open>name\<close> and \<open>message\<close>, and the two fields the retry policy
  reads, \<open>error.code\<close> and \<open>error.response?.status\<close> (absent on a plain \<open>Error\<close>).
\<close>

datatype js_error =
  JsError (err_name: jstring) (err_message: jstring) (err_code: "jstring option")
    (err_status: "nat option")

definition new_Error :: "jstring \<Rightarrow> js_error" where
  "new_Error msg = JsError (js ''Error'') msg None None"

definition TypeError :: "jstring \<Rightarrow> js_error" where
  "TypeError msg = JsError (js ''TypeError'') msg None None"

definition RangeError :: "jstring \<Rightarrow> js_error" where
  "RangeError msg = JsError (js ''RangeError'') msg None None"

definition SyntaxError :: "jstring \<Rightarrow> js_error" where
  "SyntaxError msg = JsError (js ''SyntaxError'') msg None None"

text \<open>\<open>String(error)\<close>, that is \<open>Error.prototype.toString\<close>.\<close>

definition error_to_string :: "js_error \<Rightarrow> jstring" where
  "error_to_string e =
     (if err_name e = [] then err_message e
      else if err_message e = [] then err_name e
      else err_name e @ js '': '' @ err_message e)"

subsection \<open>Decimal digits\<close>

definition digit_char :: "nat \<Rightarrow> jschar" where
  "digit_char d = of_nat (48 + d)"

function nat_to_string :: "nat \<Rightarrow> jstring" where
  "nat_to_string n =
     (if n < 10 then [digit_char n] else nat_to_string (n div 10) @ [digit_char (n mod 10)])"
  by pat_completeness auto
termination
  by (relation "measure id") auto

definition int_to_string :: "int \<Rightarrow> jstring" where
  "int_to_string i = (if i < 0 then 45 # nat_to_string (nat (- i)) else nat_to_string (nat i))"

definition is_digit :: "jschar \<Rightarrow> bool" where
  "is_digit c = (48 \<le> unat c \<and> unat c \<le> 57)"

definition is_hex_digit :: "jschar \<Rightarrow> bool" where
  "is_hex_digit c =
     (is_digit c \<or> (65 \<le> unat c \<and> unat c \<le> 70) \<or> (97 \<le> unat c \<and> unat c \<le> 102))"

definition digit_value :: "jschar \<Rightarrow> nat" where
  "digit_value c =
     (let n = unat c in if n \<le> 57 then n - 48 else if n \<le> 70 then n - 55 else n - 87)"

definition digits_value :: "nat \<Rightarrow> jstring \<Rightarrow> nat" where
  "digits_value base ds = foldl (\<lambda>a c. a * base + digit_value c) 0 ds"

subsection \<open>String to number\<close>

text \<open>
  \<open>Number(s)\<close> for a string: the StringNumericLiteral grammar of ECMAScript. White space
  around the literal is dropped and the empty string is 0; a literal is \<open>Infinity\<close>, a
  decimal literal with optional sign, fraction and exponent, or an unsigned hexadecimal,
  octal or binary integer. Anything else is NaN.
\<close>

definition parse_exponent :: "jstring \<Rightarrow> int option" where
  "parse_exponent s =
     (case s of
        [] \<Rightarrow> Some 0
      | c # r \<Rightarrow>
          (if c = 101 \<or> c = 69 then
             (let neg = (r \<noteq> [] \<and> hd r = 45);
                  ds = (if r \<noteq> [] \<and> (hd r = 43 \<or> hd r = 45) then tl r else r)
              in if ds \<noteq> [] \<and> list_all is_digit ds
                 then Some ((if neg then - 1 else 1) * int (digits_value 10 ds))
                 else None)
           else None))"

definition scale10 :: "nat \<Rightarrow> int \<Rightarrow> rat" where
  "scale10 m e = (if 0 \<le> e then of_nat m * 10 ^ nat e else of_nat m / 10 ^ nat (- e))"

definition parse_unsigned_decimal :: "jstring \<Rightarrow> jsnum" where
  "parse_unsigned_decimal s =
     (if s = js ''Infinity'' then PosInf
      else
        (let ip = takeWhile is_digit s;
             r1 = dropWhile is_digit s;
             dot = (r1 \<noteq> [] \<and> hd r1 = 46);
             fp = (if dot then takeWhile is_digit (tl r1) else []);
             r2 = (if dot then dropWhile is_digit (tl r1) else r1)
         in if ip = [] \<and> fp = [] then NaN
            else (case parse_exponent r2 of
                    None \<Rightarrow> NaN
                  | Some e \<Rightarrow> Fin (scale10 (digits_value 10 (ip @ fp)) (e - int (length fp))))))"

definition negate :: "jsnum \<Rightarrow> jsnum" where
  "negate n = (case n of Fin r \<Rightarrow> Fin (- r) | NaN \<Rightarrow> NaN | PosInf \<Rightarrow> NegInf | NegInf \<Rightarrow> PosInf)"

definition parse_radix :: "jstring \<Rightarrow> jsnum option" where
  "parse_radix t =
     (case t of
        z # x # ds \<Rightarrow>
          (if z = 48 \<and> ds \<noteq> [] then
             (if (x = 120 \<or> x = 88) \<and> list_all is_hex_digit ds
                then Some (Fin (of_nat (digits_value 16 ds)))
              else if (x = 111 \<or> x = 79) \<and> list_all (\<lambda>c. 48 \<le> unat c \<and> unat c \<le> 55) ds
                then Some (Fin (of_nat (digits_value 8 ds)))
              else if (x = 98 \<or> x = 66) \<and> list_all (\<lambda>c. 48 \<le> unat c \<and> unat c \<le> 49) ds
                then Some (Fin (of_nat (digits_value 2 ds)))
              else None)
           else None)
      | _ \<Rightarrow> None)"

definition string_to_number :: "jstring \<Rightarrow> jsnum" where
  "string_to_number s =
     (let t = trim s in
        if t = [] then Fin 0
        else (case parse_radix t of
                Some n \<Rightarrow> n
              | None \<Rightarrow>
                  (if hd t = 43 then parse_unsigned_decimal (tl t)
                   else if hd t = 45 then negate (parse_unsigned_decimal (tl t))
                   else parse_unsigned_decimal t)))"

subsection \<open>Conversions and property reads\<close>

text \<open>
  \<open>String(v)\<close>, which is also the conversion of a template literal and of the argument of
  \<open>JSON.parse\<close>, given \<open>String\<close> on Numbers. An array joins its
  elements with commas, null and undefined as empty. An object is converted by its
  \<open>toString\<close> method: the inherited one returns \<open>[object Object]\<close>, and an object with a
  property \<open>toString\<close> of its own, which in a value of the model is not a function, cannot
  be converted.
\<close>

definition cannot_convert :: js_error where
  "cannot_convert = TypeError (js ''Cannot convert object to primitive value'')"

fun to_string :: "(jsnum \<Rightarrow> jstring) \<Rightarrow> jsval \<Rightarrow> js_error + jstring"
  and join_elements :: "(jsnum \<Rightarrow> jstring) \<Rightarrow> jsval list \<Rightarrow> js_error + jstring" where
  "to_string String JUndefined = Inr (js ''undefined'')"
| "to_string String JNull = Inr (js ''null'')"
| "to_string String (JBool b) = Inr (if b then js ''true'' else js ''false'')"
| "to_string String (JNum n) = Inr (String n)"
| "to_string String (JStr s) = Inr s"
| "to_string String (JArr xs) = join_elements String xs"
| "to_string String (JObj fs) =
     (if map_of fs (js ''toString'') \<noteq> None then Inl cannot_convert
      else Inr (js ''[object Object]''))"
| "join_elements String [] = Inr []"
| "join_elements String (x # xs) =
     (case (if x = JUndefined \<or> x = JNull then Inr [] else to_string String x) of
        Inl e \<Rightarrow> Inl e
      | Inr s \<Rightarrow>
          (case join_elements String xs of
             Inl e \<Rightarrow> Inl e
           | Inr r \<Rightarrow> Inr (s @ (if xs = [] then [] else 44 # r))))"

text \<open>
  \<open>Number(v)\<close>. An object or an array is read through its string form, so the conversion
  throws when that of the string form does (\<open>unprintable\<close>). Otherwise an object gives
  NaN (its string form is \<open>[object Object]\<close>), the empty array 0, an array of two or more
  elements NaN (no numeric literal has a comma), and an array of one element the Number of
  the string form of that element, which for a Number is that Number, for null and
  undefined is 0 and for a boolean is NaN.
\<close>

fun unprintable :: "jsval \<Rightarrow> bool"
  and unprintable_list :: "jsval list \<Rightarrow> bool" where
  "unprintable (JObj fs) = (map_of fs (js ''toString'') \<noteq> None)"
| "unprintable (JArr xs) = unprintable_list xs"
| "unprintable (JStr s) = False"
| "unprintable (JNum n) = False"
| "unprintable (JBool b) = False"
| "unprintable JNull = False"
| "unprintable JUndefined = False"
| "unprintable_list [] = False"
| "unprintable_list (x # xs) = (unprintable x \<or> unprintable_list xs)"

fun number_of :: "jsval \<Rightarrow> jsnum" where
  "number_of JUndefined = NaN"
| "number_of JNull = Fin 0"
| "number_of (JBool b) = Fin (if b then 1 else 0)"
| "number_of (JNum n) = n"
| "number_of (JStr s) = string_to_number s"
| "number_of (JObj fs) = NaN"
| "number_of (JArr []) = Fin 0"
| "number_of (JArr [JUndefined]) = Fin 0"
| "number_of (JArr [JNull]) = Fin 0"
| "number_of (JArr [JBool b]) = NaN"
| "number_of (JArr [JNum n]) = n"
| "number_of (JArr [JStr s]) = string_to_number s"
| "number_of (JArr [JObj fs]) = NaN"
| "number_of (JArr [JArr xs]) = number_of (JArr xs)"
| "number_of (JArr (x # y # zs)) = NaN"

definition to_number :: "jsval \<Rightarrow> js_error + jsnum" where
  "to_number v = (if unprintable v then Inl cannot_convert else Inr (number_of v))"

text \<open>Truthiness, as \<open>!v\<close> and \<open>if (v)\<close> test it.\<close>

definition truthy :: "jsval \<Rightarrow> bool" where
  "truthy v =
     (case v of
        JUndefined \<Rightarrow> False
      | JNull \<Rightarrow> False
      | JBool b \<Rightarrow> b
      | JNum n \<Rightarrow> n \<noteq> NaN \<and> n \<noteq> Fin 0
      | JStr s \<Rightarrow> s \<noteq> []
      | JArr xs \<Rightarrow> True
      | JObj fs \<Rightarrow> True)"

text \<open>
  \<open>v.k\<close> and \<open>v[k]\<close> for a property name \<open>k\<close> that is not an array index (the scripts read
  fixed names only: the type tags, the field names of a result, \<open>generated_text\<close>). Reading
  a property of null or undefined throws; a missing property is undefined. Inherited
  properties are not modelled: none of these names is defined on a prototype.
\<close>

definition cannot_read :: "jstring \<Rightarrow> jstring \<Rightarrow> js_error" where
  "cannot_read base k =
     TypeError (js ''Cannot read properties of '' @ base @ js '' (reading '' @ [39] @ k @ [39] @ js '')'')"

definition get_prop :: "jsval \<Rightarrow> jstring \<Rightarrow> js_error + jsval" where
  "get_prop v k =
     (case v of
        JUndefined \<Rightarrow> Inl (cannot_read (js ''undefined'') k)
      | JNull \<Rightarrow> Inl (cannot_read (js ''null'') k)
      | JObj fs \<Rightarrow> Inr (case map_of fs k of Some w \<Rightarrow> w | None \<Rightarrow> JUndefined)
      | JArr xs \<Rightarrow> Inr (if k = js ''length'' then JNum (Fin (of_nat (length xs))) else JUndefined)
      | JStr s \<Rightarrow> Inr (if k = js ''length'' then JNum (Fin (of_nat (length s))) else JUndefined)
      | _ \<Rightarrow> Inr JUndefined)"

section \<open>Result codec\<close>

text \<open>The typed-attribute wrapper \<open>{ tag: v }\<close>.\<close>

definition wrap :: "string \<Rightarrow> jsval \<Rightarrow> jsval" where
  "wrap tag v = JObj [(js tag, v)]"

text \<open>The keys \<open>"0", "1", ...\<close> that \<open>for ... in\<close> visits on an array or a string.\<close>

fun index_keys :: "nat \<Rightarrow> 'a list \<Rightarrow> (jstring \<times> 'a) list" where
  "index_keys i [] = []"
| "index_keys i (x # xs) = (nat_to_string i, x) # index_keys (Suc i) xs"

subsection \<open>Encoding: \<open>toDynamoDBFormat\<close>\<close>

text \<open>
  \<open>toDynamoDBFormat\<close> returns null for null and undefined and otherwise loops over the
  keys of its argument with \<open>for ... in\<close>: the properties of an object, the indices of an
  array or of a string, nothing for a number or a boolean. \<open>encode_val\<close> is the body of
  that loop and \<open>encode_item\<close> the function mapped over an array value. \<open>typeof\<close> is
  \<open>'object'\<close> for objects, arrays and null; \<open>encode_item\<close> has no \<open>Array.isArray\<close> test.
  The first argument is \<open>String\<close> on Numbers.

  The assignment \<open>dynamoObj[key] = ...\<close> creates the property \<open>key\<close> for every key but
  \<open>__proto__\<close>, for which it replaces the prototype of \<open>dynamoObj\<close> and creates no property.
  The values of the model have no other prototype than the standard one, so these
  definitions describe the function on the values none of whose objects has a key
  \<open>__proto__\<close>; what is proved below about it is stated for such values.
\<close>

fun toDynamoDBFormat :: "(jsnum \<Rightarrow> jstring) \<Rightarrow> jsval \<Rightarrow> jsval"
  and encode_val :: "(jsnum \<Rightarrow> jstring) \<Rightarrow> jsval \<Rightarrow> jsval"
  and encode_item :: "(jsnum \<Rightarrow> jstring) \<Rightarrow> jsval \<Rightarrow> jsval"
  and encode_fields :: "(jsnum \<Rightarrow> jstring) \<Rightarrow> (jstring \<times> jsval) list \<Rightarrow> (jstring \<times> jsval) list"
  and encode_elements :: "(jsnum \<Rightarrow> jstring) \<Rightarrow> nat \<Rightarrow> jsval list \<Rightarrow> (jstring \<times> jsval) list"
  and encode_items :: "(jsnum \<Rightarrow> jstring) \<Rightarrow> jsval list \<Rightarrow> jsval list" where
  "toDynamoDBFormat String JNull = JNull"
| "toDynamoDBFormat String JUndefined = JNull"
| "toDynamoDBFormat String (JObj fs) = JObj (encode_fields String fs)"
| "toDynamoDBFormat String (JArr xs) = JObj (encode_elements String 0 xs)"
| "toDynamoDBFormat String (JStr s) = JObj (index_keys 0 (map (\<lambda>c. wrap ''S'' (JStr [c])) s))"
| "toDynamoDBFormat String (JNum n) = JObj []"
| "toDynamoDBFormat String (JBool b) = JObj []"
| "encode_val String (JStr s) = wrap ''S'' (JStr s)"
| "encode_val String (JNum n) = wrap ''N'' (JStr (String n))"
| "encode_val String (JBool b) = wrap ''BOOL'' (JBool b)"
| "encode_val String (JArr xs) = wrap ''L'' (JArr (encode_items String xs))"
| "encode_val String (JObj fs) = wrap ''M'' (toDynamoDBFormat String (JObj fs))"
| "encode_val String JNull = wrap ''M'' (toDynamoDBFormat String JNull)"
| "encode_val String JUndefined = wrap ''S'' (JStr (js ''undefined''))"
| "encode_item String (JStr s) = wrap ''S'' (JStr s)"
| "encode_item String (JNum n) = wrap ''N'' (JStr (String n))"
| "encode_item String (JBool b) = wrap ''BOOL'' (JBool b)"
| "encode_item String (JArr xs) = wrap ''M'' (toDynamoDBFormat String (JArr xs))"
| "encode_item String (JObj fs) = wrap ''M'' (toDynamoDBFormat String (JObj fs))"
| "encode_item String JNull = wrap ''M'' (toDynamoDBFormat String JNull)"
| "encode_item String JUndefined = wrap ''S'' (JStr (js ''undefined''))"
| "encode_fields String [] = []"
| "encode_fields String ((k, v) # fs) = (k, encode_val String v) # encode_fields String fs"
| "encode_elements String i [] = []"
| "encode_elements String i (x # xs) =
     (nat_to_string i, encode_val String x) # encode_elements String (Suc i) xs"
| "encode_items String [] = []"
| "encode_items String (x # xs) = encode_item String x # encode_items String xs"


subsection \<open>Decoding: the two \<open>convert\<close> functions\<close>

text \<open>\<open>item.k\<close> for an object with the properties \<open>fs\<close>, and \<open>k in item\<close>.\<close>

definition field :: "(jstring \<times> jsval) list \<Rightarrow> string \<Rightarrow> jsval" where
  "field fs k = (case map_of fs (js k) of Some w \<Rightarrow> w | None \<Rightarrow> JUndefined)"

definition has_key :: "(jstring \<times> jsval) list \<Rightarrow> string \<Rightarrow> bool" where
  "has_key fs k = (map_of fs (js k) \<noteq> None)"

definition has_tag :: "(jstring \<times> jsval) list \<Rightarrow> bool" where
  "has_tag fs =
     (has_key fs ''S'' \<or> has_key fs ''N'' \<or> has_key fs ''BOOL'' \<or> has_key fs ''M'' \<or> has_key fs ''L'')"

definition not_a_function :: "string \<Rightarrow> js_error" where
  "not_a_function what = TypeError (js what @ js '' is not a function'')"

definition stack_overflow :: js_error where
  "stack_overflow = RangeError (js ''Maximum call stack size exceeded'')"

text \<open>
  \<open>convert\<close> of the analytics script. A falsy argument gives null. An object with one of
  the keys S, N, BOOL, M, L is read as a typed wrapper, by the first tag whose value is
  not undefined; any other value is rebuilt key by key. On a non-empty string the loop
  visits the index \<open>"0"\<close> and calls \<open>convert\<close> on a one-character string, which does the
  same again: the recursion never ends and the engine throws a RangeError.

  As in \<open>toDynamoDBFormat\<close>, the assignment \<open>out[key] = ...\<close> creates the property \<open>key\<close>
  for every key but \<open>__proto__\<close>, and an object whose prototype has been replaced can
  inherit a tag that \<open>'S' in item\<close> sees. Both \<open>convert\<close> functions are described on the
  values none of whose objects has a key \<open>__proto__\<close>.
\<close>

function convert_analytics :: "jsval \<Rightarrow> js_error + jsval"
  and convert_analytics_list :: "jsval list \<Rightarrow> js_error + jsval list"
  and convert_analytics_fields :: "(jstring \<times> jsval) list \<Rightarrow> js_error + (jstring \<times> jsval) list"
  and convert_analytics_elements :: "nat \<Rightarrow> jsval list \<Rightarrow> js_error + (jstring \<times> jsval) list" where
  "convert_analytics JUndefined = Inr JNull"
| "convert_analytics JNull = Inr JNull"
| "convert_analytics (JBool b) = Inr (if b then JObj [] else JNull)"
| "convert_analytics (JNum n) = Inr (if truthy (JNum n) then JObj [] else JNull)"
| "convert_analytics (JStr s) = (if s = [] then Inr JNull else Inl stack_overflow)"
| "convert_analytics (JArr xs) =
     (case convert_analytics_elements 0 xs of Inl e \<Rightarrow> Inl e | Inr out \<Rightarrow> Inr (JObj out))"
| "convert_analytics (JObj fs) =
     (if has_tag fs \<and> field fs ''S'' \<noteq> JUndefined then Inr (field fs ''S'')
      else if has_tag fs \<and> field fs ''N'' \<noteq> JUndefined then
        (case to_number (field fs ''N'') of Inl e \<Rightarrow> Inl e | Inr n \<Rightarrow> Inr (JNum n))
      else if has_tag fs \<and> field fs ''BOOL'' \<noteq> JUndefined then Inr (field fs ''BOOL'')
      else if has_tag fs \<and> field fs ''M'' \<noteq> JUndefined then convert_analytics (field fs ''M'')
      else if has_tag fs \<and> field fs ''L'' \<noteq> JUndefined then
        (case field fs ''L'' of
           JArr xs \<Rightarrow>
             (case convert_analytics_list xs of Inl e \<Rightarrow> Inl e | Inr ys \<Rightarrow> Inr (JArr ys))
         | JNull \<Rightarrow> Inl (cannot_read (js ''null'') (js ''map''))
         | _ \<Rightarrow> Inl (not_a_function ''item.L.map''))
      else (case convert_analytics_fields fs of Inl e \<Rightarrow> Inl e | Inr out \<Rightarrow> Inr (JObj out)))"
| "convert_analytics_list [] = Inr []"
| "convert_analytics_list (x # xs) =
     (case convert_analytics x of
        Inl e \<Rightarrow> Inl e
      | Inr y \<Rightarrow> (case convert_analytics_list xs of Inl e \<Rightarrow> Inl e | Inr ys \<Rightarrow> Inr (y # ys)))"
| "convert_analytics_fields [] = Inr []"
| "convert_analytics_fields ((k, v) # fs) =
     (case convert_analytics v of
        Inl e \<Rightarrow> Inl e
      | Inr y \<Rightarrow>
          (case convert_analytics_fields fs of Inl e \<Rightarrow> Inl e | Inr out \<Rightarrow> Inr ((k, y) # out)))"
| "convert_analytics_elements i [] = Inr []"
| "convert_analytics_elements i (x # xs) =
     (case convert_analytics x of
        Inl e \<Rightarrow> Inl e
      | Inr y \<Rightarrow>
          (case convert_analytics_elements (Suc i) xs of
             Inl e \<Rightarrow> Inl e
           | Inr out \<Rightarrow> Inr ((nat_to_string i, y) # out)))"
  by pat_completeness auto
termination
proof (relation "measure (\<lambda>a. case a of
         Inl (Inl v) \<Rightarrow> size v
       | Inl (Inr xs) \<Rightarrow> size_list size xs
       | Inr (Inl fs) \<Rightarrow> size_list (size_prod (\<lambda>_. 0) size) fs
       | Inr (Inr (i, xs)) \<Rightarrow> size_list size xs)", goal_cases)
  case 1
  show ?case by simp
next
  case (2 xs)
  show ?case by simp
next
  case (3 fs)
  have "size w < Suc (size_list (size_prod (\<lambda>_. 0) size) gs)" if "map_of gs k = Some w"
    for gs :: "(jstring \<times> jsval) list" and k w
    using that by (induction gs) (auto split: if_splits)
  then show ?case by (auto simp: field_def split: option.splits)
next
  case (4 fs xs)
  have "size w < Suc (size_list (size_prod (\<lambda>_. 0) size) gs)" if "map_of gs k = Some w"
    for gs :: "(jstring \<times> jsval) list" and k w
    using that by (induction gs) (auto split: if_splits)
  from this[of fs "js ''L''" "JArr xs"] 4 show ?case
    by (auto simp: field_def split: option.splits)
qed auto


text \<open>
  \<open>convert\<close> of the batch scripts. It loops over the keys of its argument and inspects the
  value \<open>val\<close> under each key (\<open>convert_batch_value\<close>); reading \<open>val.S\<close> throws when \<open>val\<close> is
  null or undefined and is undefined on a string, number, boolean or array. The elements
  of a list value are passed to \<open>convert\<close> itself.
\<close>

function convert_batch :: "jsval \<Rightarrow> js_error + jsval"
  and convert_batch_value :: "jsval \<Rightarrow> js_error + jsval"
  and convert_batch_list :: "jsval list \<Rightarrow> js_error + jsval list"
  and convert_batch_fields :: "(jstring \<times> jsval) list \<Rightarrow> js_error + (jstring \<times> jsval) list"
  and convert_batch_elements :: "nat \<Rightarrow> jsval list \<Rightarrow> js_error + (jstring \<times> jsval) list" where
  "convert_batch JUndefined = Inr JNull"
| "convert_batch JNull = Inr JNull"
| "convert_batch (JBool b) = Inr (if b then JObj [] else JNull)"
| "convert_batch (JNum n) = Inr (if truthy (JNum n) then JObj [] else JNull)"
| "convert_batch (JStr s) =
     Inr (if s = [] then JNull else JObj (index_keys 0 (map (\<lambda>c. JStr [c]) s)))"
| "convert_batch (JArr xs) =
     (case convert_batch_elements 0 xs of Inl e \<Rightarrow> Inl e | Inr out \<Rightarrow> Inr (JObj out))"
| "convert_batch (JObj fs) =
     (case convert_batch_fields fs of Inl e \<Rightarrow> Inl e | Inr out \<Rightarrow> Inr (JObj out))"
| "convert_batch_value JUndefined = Inl (cannot_read (js ''undefined'') (js ''S''))"
| "convert_batch_value JNull = Inl (cannot_read (js ''null'') (js ''S''))"
| "convert_batch_value (JBool b) = Inr (JBool b)"
| "convert_batch_value (JNum n) = Inr (JNum n)"
| "convert_batch_value (JStr s) = Inr (JStr s)"
| "convert_batch_value (JArr xs) = Inr (JArr xs)"
| "convert_batch_value (JObj fs) =
     (if field fs ''S'' \<noteq> JUndefined then Inr (field fs ''S'')
      else if field fs ''N'' \<noteq> JUndefined then
        (case to_number (field fs ''N'') of Inl e \<Rightarrow> Inl e | Inr n \<Rightarrow> Inr (JNum n))
      else if field fs ''BOOL'' \<noteq> JUndefined then Inr (field fs ''BOOL'')
      else if field fs ''M'' \<noteq> JUndefined then convert_batch (field fs ''M'')
      else if field fs ''L'' \<noteq> JUndefined then
        (case field fs ''L'' of
           JArr xs \<Rightarrow> (case convert_batch_list xs of Inl e \<Rightarrow> Inl e | Inr ys \<Rightarrow> Inr (JArr ys))
         | JNull \<Rightarrow> Inl (cannot_read (js ''null'') (js ''map''))
         | _ \<Rightarrow> Inl (not_a_function ''val.L.map''))
      else Inr (JObj fs))"
| "convert_batch_list [] = Inr []"
| "convert_batch_list (x # xs) =
     (case convert_batch x of
        Inl e \<Rightarrow> Inl e
      | Inr y \<Rightarrow> (case convert_batch_list xs of Inl e \<Rightarrow> Inl e | Inr ys \<Rightarrow> Inr (y # ys)))"
| "convert_batch_fields [] = Inr []"
| "convert_batch_fields ((k, v) # fs) =
     (case convert_batch_value v of
        Inl e \<Rightarrow> Inl e
      | Inr y \<Rightarrow>
          (case convert_batch_fields fs of Inl e \<Rightarrow> Inl e | Inr out \<Rightarrow> Inr ((k, y) # out)))"
| "convert_batch_elements i [] = Inr []"
| "convert_batch_elements i (x # xs) =
     (case convert_batch_value x of
        Inl e \<Rightarrow> Inl e
      | Inr y \<Rightarrow>
          (case convert_batch_elements (Suc i) xs of
             Inl e \<Rightarrow> Inl e
           | Inr out \<Rightarrow> Inr ((nat_to_string i, y) # out)))"
  by pat_completeness auto
termination
proof (relation "measure (\<lambda>a. case a of
         Inl (Inl v) \<Rightarrow> 2 * size v + 1
       | Inl (Inr v) \<Rightarrow> 2 * size v
       | Inr (Inl xs) \<Rightarrow> 2 * size_list size xs + 1
       | Inr (Inr (Inl fs)) \<Rightarrow> 2 * size_list (size_prod (\<lambda>_. 0) size) fs + 1
       | Inr (Inr (Inr (i, xs))) \<Rightarrow> 2 * size_list size xs + 1)", goal_cases)
  case 1
  show ?case by simp
next
  case (4 fs)
  have "size w < Suc (size_list (size_prod (\<lambda>_. 0) size) gs)" if "map_of gs k = Some w"
    for gs :: "(jstring \<times> jsval) list" and k w
    using that by (induction gs) (auto split: if_splits)
  then show ?case by (fastforce simp: field_def split: option.splits)
next
  case (5 fs xs)
  have "size w < Suc (size_list (size_prod (\<lambda>_. 0) size) gs)" if "map_of gs k = Some w"
    for gs :: "(jstring \<times> jsval) list" and k w
    using that by (induction gs) (auto split: if_splits)
  from this[of fs "js ''L''" "JArr xs"] 5 show ?case
    by (auto simp: field_def split: option.splits)
qed auto

section \<open>Result validator\<close>

definition required :: "string list" where
  "required =
     [''analyticsId'', ''assignmentId'', ''gradeReceived'', ''aiGeneratedAnalytics'',
      ''plagarismAnalytics'', ''gradeReasoning'', ''remarks'']"

definition missing_field :: "string \<Rightarrow> js_error" where
  "missing_field f = new_Error (js ''Missing required field: '' @ js f)"

text \<open>The \<open>forEach\<close> over the required names; a \<open>throw\<close> in the callback ends it.\<close>

fun check_required :: "jsval \<Rightarrow> string list \<Rightarrow> js_error + unit" where
  "check_required result [] = Inr ()"
| "check_required result (f # fs) =
     (case get_prop result (js f) of
        Inl e \<Rightarrow> Inl e
      | Inr v \<Rightarrow> if \<not> truthy v then Inl (missing_field f) else check_required result fs)"

definition validateDynamoDBStructure :: "jsval \<Rightarrow> js_error + bool" where
  "validateDynamoDBStructure result =
     (case check_required result required of Inl e \<Rightarrow> Inl e | Inr u \<Rightarrow> Inr True)"


section \<open>The world outside the scripts\<close>

text \<open>
  What the scripts do not compute is read from an environment: the directory listing and
  the files, the HTTP client, the SageMaker client, the table, the two JSON builtins and
  the string form of a Number.
  A network call is answered by its position in the run (the number of calls made before
  it) and its request, so that any sequence of answers can be written down. \<open>json_parse\<close>
  returns the message of the SyntaxError when the text is not JSON.

  \<open>axios.post\<close> is called without \<open>validateStatus\<close>: the promise resolves with the status
  and the parsed body for a 2xx answer, and is rejected for any other status with an error
  whose \<open>response.status\<close> is that status; a timeout rejects with the code \<open>ECONNABORTED\<close>
  and no \<open>response\<close>.
\<close>

record request =
  req_text :: jstring
  req_assignmentId :: jstring
  req_analyticsId :: jsnum

datatype axios_outcome = Resolved nat jsval | Rejected js_error

record env =
  readdir :: "js_error + jstring list"
  read_file :: "jstring \<Rightarrow> js_error + jstring"
  axios_post :: "nat \<Rightarrow> request \<Rightarrow> axios_outcome"
  sagemaker_send :: "nat \<Rightarrow> request \<Rightarrow> js_error + jstring"
  put_item :: "nat \<Rightarrow> jsval \<Rightarrow> js_error option"
  json_parse :: "jstring \<Rightarrow> jstring + jsval"
  json_stringify :: "jsval \<Rightarrow> jstring"
  number_text :: "jsnum \<Rightarrow> jstring"

text \<open>
  The effects of a run: the number of requests sent to the model endpoint, the delays
  slept between attempts (in milliseconds, oldest first) and the number of writes to the
  table.
\<close>

record world =
  requests :: nat
  sleeps :: "nat list"
  puts :: nat

section \<open>Endpoint invoker\<close>

definition MAX_RETRIES :: nat where
  "MAX_RETRIES = 3"

definition safeText :: "jstring \<Rightarrow> jstring" where
  "safeText assignmentText =
     js ''<<RAW_TEXT_START>>'' @ normalizeForOneLine (sanitizeText assignmentText) @
     js ''<<RAW_TEXT_END>>''"

definition unknown_format :: "env \<Rightarrow> jsval \<Rightarrow> js_error" where
  "unknown_format env result =
     new_Error (js ''Unknown response format. Expected DynamoDB JSON or SageMaker array. Got: '' @
                take 200 (json_stringify env result))"

text \<open>\<open>JSON.parse(v)\<close>: the argument is converted to a string first.\<close>

definition JSON_parse :: "env \<Rightarrow> jsval \<Rightarrow> js_error + jsval" where
  "JSON_parse env v =
     (case to_string (number_text env) v of
        Inl e \<Rightarrow> Inl e
      | Inr text \<Rightarrow>
          (case json_parse env text of Inl msg \<Rightarrow> Inl (SyntaxError msg) | Inr r \<Rightarrow> Inr r))"

text \<open>
  The test \<open>result.analyticsId && result.analyticsId.N !== undefined\<close> and the test
  \<open>Array.isArray(result) && result.length > 0 && result[0].generated_text\<close>; each reads
  properties and so may throw.
\<close>

definition is_dynamodb_format :: "jsval \<Rightarrow> js_error + bool" where
  "is_dynamodb_format result =
     (case get_prop result (js ''analyticsId'') of
        Inl e \<Rightarrow> Inl e
      | Inr a \<Rightarrow>
          if \<not> truthy a then Inr False
          else (case get_prop a (js ''N'') of Inl e \<Rightarrow> Inl e | Inr n \<Rightarrow> Inr (n \<noteq> JUndefined)))"

definition generated_text :: "jsval \<Rightarrow> js_error + jsval option" where
  "generated_text result =
     (case result of
        JArr (x # xs) \<Rightarrow>
          (case get_prop x (js ''generated_text'') of
             Inl e \<Rightarrow> Inl e
           | Inr g \<Rightarrow> Inr (if truthy g then Some g else None))
      | _ \<Rightarrow> Inr None)"

text \<open>The inner \<open>try\<close> block that reconciles the response; its \<open>catch\<close> logs and rethrows.\<close>

definition parse_response :: "env \<Rightarrow> jsval \<Rightarrow> js_error + jsval" where
  "parse_response env raw =
     (case (case raw of JStr s \<Rightarrow> JSON_parse env raw | _ \<Rightarrow> Inr raw) of
        Inl e \<Rightarrow> Inl e
      | Inr result \<Rightarrow>
          (case is_dynamodb_format result of
             Inl e \<Rightarrow> Inl e
           | Inr True \<Rightarrow> Inr result
           | Inr False \<Rightarrow>
               (case generated_text result of
                  Inl e \<Rightarrow> Inl e
                | Inr (Some g) \<Rightarrow> JSON_parse env g
                | Inr None \<Rightarrow> Inl (unknown_format env result))))"

text \<open>
  One pass through the body of the outer \<open>try\<close>: the request, the log of the raw answer
  (\<open>JSON.stringify(raw).substring\<close> throws on undefined), the status test, the parse.
\<close>

definition attempt_once :: "env \<Rightarrow> request \<Rightarrow> world \<Rightarrow> (js_error + jsval) \<times> world" where
  "attempt_once env req st =
     (let st1 = st\<lparr>requests := requests st + 1\<rparr> in
      case axios_post env (requests st) req of
        Rejected e \<Rightarrow> (Inl e, st1)
      | Resolved code raw \<Rightarrow>
          (if raw = JUndefined then (Inl (cannot_read (js ''undefined'') (js ''substring'')), st1)
           else if code \<ge> 400 then
             (Inl (new_Error (js ''Lambda returned HTTP '' @ nat_to_string code @ js '': '' @
                              json_stringify env raw)), st1)
           else (parse_response env raw, st1)))"

definition retryable :: "js_error \<Rightarrow> bool" where
  "retryable error = (err_status error = Some 502 \<or> err_code error = Some (js ''ECONNABORTED''))"

definition exhausted :: "js_error \<Rightarrow> js_error" where
  "exhausted error =
     new_Error (js ''Lambda invocation failed after '' @ nat_to_string MAX_RETRIES @
                js '' attempts: '' @ err_message error)"

text \<open>The \<open>for\<close> loop, entered at \<open>attempt\<close>.\<close>

function invoke_from :: "env \<Rightarrow> request \<Rightarrow> nat \<Rightarrow> world \<Rightarrow> (js_error + jsval) \<times> world" where
  "invoke_from env req attempt st =
     (if attempt \<le> MAX_RETRIES then
        (case attempt_once env req st of
           (Inr parsed, st1) \<Rightarrow> (Inr parsed, st1)
         | (Inl error, st1) \<Rightarrow>
             if attempt < MAX_RETRIES \<and> retryable error then
               invoke_from env req (attempt + 1) (st1\<lparr>sleeps := sleeps st1 @ [1000 * attempt]\<rparr>)
             else if attempt = MAX_RETRIES then (Inl (exhausted error), st1)
             else (Inl error, st1))
      else (Inr JUndefined, st))"
  by pat_completeness auto
termination
  by (relation "measure (\<lambda>(env, req, attempt, st). MAX_RETRIES + 1 - attempt)") auto

definition invokeModelEndpoint ::
  "env \<Rightarrow> jstring \<Rightarrow> jstring \<Rightarrow> jsnum \<Rightarrow> world \<Rightarrow> (js_error + jsval) \<times> world" where
  "invokeModelEndpoint env assignmentText assignmentId analyticsId st =
     invoke_from env
       \<lparr>req_text = safeText assignmentText, req_assignmentId = assignmentId,
        req_analyticsId = analyticsId\<rparr> 1 st"

text \<open>
  \<open>invokeModelEndpoint\<close> of the SageMaker script: one call, the body decoded as text and
  parsed; every error is logged and rethrown.
\<close>

definition invokeModelEndpoint_sagemaker ::
  "env \<Rightarrow> jstring \<Rightarrow> jstring \<Rightarrow> jsnum \<Rightarrow> world \<Rightarrow> (js_error + jsval) \<times> world" where
  "invokeModelEndpoint_sagemaker env assignmentText assignmentId analyticsId st =
     (let st1 = st\<lparr>requests := requests st + 1\<rparr> in
      case sagemaker_send env (requests st)
             \<lparr>req_text = assignmentText, req_assignmentId = assignmentId,
              req_analyticsId = analyticsId\<rparr> of
        Inl e \<Rightarrow> (Inl e, st1)
      | Inr raw \<Rightarrow> (JSON_parse env (JStr raw), st1))"


section \<open>Batch orchestrator\<close>

subsection \<open>File names\<close>

text \<open>\<open>s.replace(pat, '')\<close> for a string pattern: the first occurrence is removed.\<close>

fun remove_first :: "jstring \<Rightarrow> jstring \<Rightarrow> jstring" where
  "remove_first pat [] = []"
| "remove_first pat (c # cs) =
     (if take (length pat) (c # cs) = pat then drop (length pat) (c # cs)
      else c # remove_first pat cs)"

definition ends_with :: "jstring \<Rightarrow> jstring \<Rightarrow> bool" where
  "ends_with s suffix = (length suffix \<le> length s \<and> drop (length s - length suffix) s = suffix)"

text \<open>
  \<open>path.extname\<close> (POSIX) on a name without a slash, as \<open>readdir\<close> returns them: from the
  last dot on, and empty when there is no dot, when the only dot is the first character,
  and for the name \<open>..\<close>.
\<close>

definition extname :: "jstring \<Rightarrow> jstring" where
  "extname name =
     (let after = takeWhile (\<lambda>c. c \<noteq> 46) (rev name);
          startDot = length name - length after - 1
      in if 46 \<notin> set name \<or> startDot = 0 \<or> name = [46, 46] then []
         else drop startDot name)"

text \<open>\<open>path.join('./converted', filename)\<close>.\<close>

definition full_path :: "jstring \<Rightarrow> jstring" where
  "full_path filename = js ''converted/'' @ filename"

definition readAssignmentFromLocal :: "env \<Rightarrow> jstring \<Rightarrow> js_error + jstring \<times> jstring" where
  "readAssignmentFromLocal env filename =
     (case read_file env (full_path filename) of
        Inl e \<Rightarrow>
          Inl (new_Error (js ''Failed to read file '' @ full_path filename @ js '': '' @
                          err_message e))
      | Inr assignmentText \<Rightarrow> Inr (assignmentText, remove_first (extname filename) filename))"

subsection \<open>Persistence\<close>

text \<open>
  \<open>saveAnalysisToDynamoDB\<close>: the write, then a log line that reads
  \<open>result.assignmentId.N\<close> into a template literal; it throws when that path does not
  exist and when the value has no string form.
\<close>

definition saveAnalysisToDynamoDB :: "env \<Rightarrow> jsval \<Rightarrow> world \<Rightarrow> (js_error + unit) \<times> world" where
  "saveAnalysisToDynamoDB env result st =
     (let st1 = st\<lparr>puts := puts st + 1\<rparr> in
      case put_item env (puts st) result of
        Some e \<Rightarrow> (Inl e, st1)
      | None \<Rightarrow>
          (case get_prop result (js ''assignmentId'') of
             Inl e \<Rightarrow> (Inl e, st1)
           | Inr a \<Rightarrow>
               (case get_prop a (js ''N'') of
                  Inl e \<Rightarrow> (Inl e, st1)
                | Inr n \<Rightarrow>
                    (case to_string (number_text env) n of
                       Inl e \<Rightarrow> (Inl e, st1)
                     | Inr line \<Rightarrow> (Inr (), st1)))))"

subsection \<open>Outcomes\<close>

datatype status = SUCCESS | FAILED

record outcome =
  assignmentId :: jstring
  status :: status
  error :: "jstring option"

text \<open>The inner \<open>try\<close>/\<open>catch\<close> around the write, shared by the handlers.\<close>

definition save_and_report :: "env \<Rightarrow> jstring \<Rightarrow> jsval \<Rightarrow> world \<Rightarrow> outcome \<times> world" where
  "save_and_report env ident modelResult st =
     (case saveAnalysisToDynamoDB env modelResult st of
        (Inr u, st1) \<Rightarrow> (\<lparr>assignmentId = ident, status = SUCCESS, error = None\<rparr>, st1)
      | (Inl saveErr, st1) \<Rightarrow>
          (\<lparr>assignmentId = ident, status = FAILED,
            error = Some (if err_message saveErr \<noteq> [] then err_message saveErr
                          else error_to_string saveErr)\<rparr>, st1))"

text \<open>\<open>a + b\<close> on Numbers.\<close>

definition num_add :: "jsnum \<Rightarrow> jsnum \<Rightarrow> jsnum" where
  "num_add a b =
     (case (a, b) of
        (Fin x, Fin y) \<Rightarrow> Fin (x + y)
      | (NaN, _) \<Rightarrow> NaN
      | (_, NaN) \<Rightarrow> NaN
      | (PosInf, NegInf) \<Rightarrow> NaN
      | (NegInf, PosInf) \<Rightarrow> NaN
      | (PosInf, _) \<Rightarrow> PosInf
      | (NegInf, _) \<Rightarrow> NegInf
      | (_, PosInf) \<Rightarrow> PosInf
      | (_, NegInf) \<Rightarrow> NegInf)"

subsection \<open>One file\<close>

text \<open>
  The body of the \<open>try\<close> inside the loop, for the Lambda script (validation commented
  out, \<open>maxId + 1\<close>) and for the SageMaker script (validation on, \<open>maxId\<close>). The result is
  the thrown error, or \<open>None\<close> after \<open>continue\<close>, or the outcome pushed.
\<close>

definition try_file_lambda ::
  "env \<Rightarrow> jsnum \<Rightarrow> jstring \<Rightarrow> world \<Rightarrow> (js_error + outcome option) \<times> world" where
  "try_file_lambda env maxId file st =
     (case readAssignmentFromLocal env file of
        Inl e \<Rightarrow> (Inl e, st)
      | Inr (assignmentText, ident) \<Rightarrow>
          if string_to_number ident = NaN then (Inr None, st)
          else
            (case invokeModelEndpoint env assignmentText ident (num_add maxId (Fin 1)) st of
               (Inl e, st1) \<Rightarrow> (Inl e, st1)
             | (Inr modelResult, st1) \<Rightarrow>
                 (case save_and_report env ident modelResult st1 of
                    (out, st2) \<Rightarrow> (Inr (Some out), st2))))"

definition try_file_sagemaker ::
  "env \<Rightarrow> jsnum \<Rightarrow> jstring \<Rightarrow> world \<Rightarrow> (js_error + outcome option) \<times> world" where
  "try_file_sagemaker env maxId file st =
     (case readAssignmentFromLocal env file of
        Inl e \<Rightarrow> (Inl e, st)
      | Inr (assignmentText, ident) \<Rightarrow>
          if string_to_number ident = NaN then (Inr None, st)
          else
            (case invokeModelEndpoint_sagemaker env assignmentText ident maxId st of
               (Inl e, st1) \<Rightarrow> (Inl e, st1)
             | (Inr modelResult, st1) \<Rightarrow>
                 (case validateDynamoDBStructure modelResult of
                    Inl e \<Rightarrow> (Inl e, st1)
                  | Inr ok \<Rightarrow>
                      (case save_and_report env ident modelResult st1 of
                         (out, st2) \<Rightarrow> (Inr (Some out), st2)))))"

text \<open>The \<open>catch\<close> of the loop body.\<close>

definition catch_file ::
  "jstring \<Rightarrow> (js_error + outcome option) \<times> world \<Rightarrow> outcome option \<times> world" where
  "catch_file file r =
     (case r of
        (Inl e, st) \<Rightarrow>
          (Some \<lparr>assignmentId = remove_first (js ''.txt'') file, status = FAILED,
                 error = Some (err_message e)\<rparr>, st)
      | (Inr out, st) \<Rightarrow> (out, st))"

subsection \<open>The loop and the handlers\<close>

text \<open>\<open>for (const file of txtFiles)\<close>, with the report built so far.\<close>

fun process_files ::
  "(jstring \<Rightarrow> world \<Rightarrow> (js_error + outcome option) \<times> world) \<Rightarrow> jstring list \<Rightarrow> world \<Rightarrow>
   outcome list \<Rightarrow> outcome list \<times> world" where
  "process_files body [] st results = (results, st)"
| "process_files body (file # files) st results =
     (case catch_file file (body file st) of
        (None, st1) \<Rightarrow> process_files body files st1 results
      | (Some out, st1) \<Rightarrow> process_files body files st1 (results @ [out]))"

text \<open>
  What the handler returns: status 200 with the report, 400 when no \<open>.txt\<close> file is
  there, 500 with the message of an error thrown outside the loop. The table scan that
  computes \<open>maxId\<close> comes before the \<open>try\<close> and is not part of the model: \<open>maxId\<close> is given.
\<close>

datatype response = Report "outcome list" | NoFiles | Failure jstring

definition statusCode :: "response \<Rightarrow> nat" where
  "statusCode r = (case r of Report rs \<Rightarrow> 200 | NoFiles \<Rightarrow> 400 | Failure msg \<Rightarrow> 500)"

definition run_handler ::
  "(jstring \<Rightarrow> world \<Rightarrow> (js_error + outcome option) \<times> world) \<Rightarrow> env \<Rightarrow> world \<Rightarrow>
   response \<times> world" where
  "run_handler body env st =
     (case readdir env of
        Inl e \<Rightarrow> (Failure (err_message e), st)
      | Inr files \<Rightarrow>
          (let txtFiles = filter (\<lambda>f. ends_with f (js ''.txt'')) files in
           if txtFiles = [] then (NoFiles, st)
           else (case process_files body txtFiles st [] of (results, st1) \<Rightarrow> (Report results, st1))))"

definition handler_lambda :: "env \<Rightarrow> jsnum \<Rightarrow> world \<Rightarrow> response \<times> world" where
  "handler_lambda env maxId st = run_handler (try_file_lambda env maxId) env st"



section \<open>Notions used in the proofs\<close>

subsection \<open>Sanitized text\<close>

text \<open>
  The shape of a sanitized text: no two white space code units in a row, none at either
  end, and every code unit in the safe class other than tab, line feed and carriage return.
\<close>

fun no_adjacent_spaces :: "jstring \<Rightarrow> bool" where
  "no_adjacent_spaces (a # b # cs) = (\<not> (is_space a \<and> is_space b) \<and> no_adjacent_spaces (b # cs))"
| "no_adjacent_spaces _ = True"

definition trimmed :: "jstring \<Rightarrow> bool" where
  "trimmed s = (s = [] \<or> (\<not> is_space (hd s) \<and> \<not> is_space (last s)))"

definition plain_char :: "jschar \<Rightarrow> bool" where
  "plain_char c = (in_safe_class c \<and> c \<noteq> 9 \<and> c \<noteq> 10 \<and> c \<noteq> 13)"

definition clean :: "jstring \<Rightarrow> bool" where
  "clean s = ((\<forall>c \<in> set s. plain_char c) \<and> no_adjacent_spaces s \<and> trimmed s)"

subsection \<open>Missing fields\<close>

text \<open>The required fields that are missing from a result, in the order of \<open>required\<close>.\<close>

definition field_falsy :: "jsval \<Rightarrow> string \<Rightarrow> bool" where
  "field_falsy result f = (case get_prop result (js f) of Inl e \<Rightarrow> False | Inr v \<Rightarrow> \<not> truthy v)"

definition missing_fields :: "jsval \<Rightarrow> string list" where
  "missing_fields result = filter (field_falsy result) required"

definition two_missing :: jsval where
  "two_missing =
     JObj [(js ''analyticsId'', JObj [(js ''N'', JStr (js ''1''))]),
           (js ''assignmentId'', JObj [(js ''N'', JStr (js ''7''))]),
           (js ''gradeReceived'', JObj [(js ''N'', JStr (js ''90''))]),
           (js ''plagarismAnalytics'', JObj [(js ''M'', JObj [])]),
           (js ''remarks'', JStr (js ''''))]"

definition zero_grade :: jsval where
  "zero_grade =
     JObj [(js ''analyticsId'', JNum (Fin 1)),
           (js ''assignmentId'', JNum (Fin 7)),
           (js ''gradeReceived'', JNum (Fin 0)),
           (js ''aiGeneratedAnalytics'', JObj []),
           (js ''plagarismAnalytics'', JObj []),
           (js ''gradeReasoning'', JStr (js ''copied'')),
           (js ''remarks'', JStr (js ''see me''))]"

definition only_zero_grade :: jsval where
  "only_zero_grade = JObj [(js ''gradeReceived'', JNum (Fin 0))]"

text \<open>The sample result that the SageMaker script carries in a comment.\<close>

definition sample_result :: jsval where
  "sample_result =
     JObj [(js ''analyticsId'', wrap ''N'' (JStr (js ''12345''))),
           (js ''assignmentId'', wrap ''N'' (JStr (js ''7''))),
           (js ''gradeReceived'', wrap ''N'' (JStr (js ''85''))),
           (js ''aiGeneratedAnalytics'', wrap ''M'' (JObj
              [(js ''isAIUsed'', wrap ''BOOL'' (JBool True)),
               (js ''percentageOfAIUsed'', wrap ''N'' (JStr (js ''60''))),
               (js ''highlightedAreaOfAIUse'', wrap ''L'' (JArr
                  [wrap ''S'' (JStr (js ''10'')), wrap ''S'' (JStr (js ''25''))]))])),
           (js ''plagarismAnalytics'', wrap ''M'' (JObj
              [(js ''isPlagarised'', wrap ''BOOL'' (JBool False)),
               (js ''plagarisedPercentage'', wrap ''N'' (JStr (js ''0''))),
               (js ''plagarisedFrom'', wrap ''L'' (JArr []))])),
           (js ''gradeReasoning'', wrap ''S'' (JStr (js ''AI-generated content''))),
           (js ''remarks'', wrap ''S'' (JStr (js ''More original work please'')))]"

subsection \<open>Plain values\<close>

text \<open>
  The plain values on which encoding followed by decoding is the identity up to numbers:
  built from strings, numbers, booleans, objects and lists, where no object has a key
  that is a type tag or \<open>__proto__\<close> and no list stands directly inside a list.
  \<open>plain_val\<close> is for the value of a property, \<open>plain_item\<close> for an element of a list.
\<close>

definition is_tag :: "jstring \<Rightarrow> bool" where
  "is_tag k = (k = js ''S'' \<or> k = js ''N'' \<or> k = js ''BOOL'' \<or> k = js ''M'' \<or> k = js ''L'')"

definition reserved_key :: "jstring \<Rightarrow> bool" where
  "reserved_key k = (is_tag k \<or> k = js ''__proto__'')"

fun plain_val :: "jsval \<Rightarrow> bool"
  and plain_item :: "jsval \<Rightarrow> bool"
  and plain_fields :: "(jstring \<times> jsval) list \<Rightarrow> bool"
  and plain_items :: "jsval list \<Rightarrow> bool" where
  "plain_val (JStr s) = True"
| "plain_val (JNum n) = True"
| "plain_val (JBool b) = True"
| "plain_val (JArr xs) = plain_items xs"
| "plain_val (JObj fs) = plain_fields fs"
| "plain_val JNull = False"
| "plain_val JUndefined = False"
| "plain_item (JStr s) = True"
| "plain_item (JNum n) = True"
| "plain_item (JBool b) = True"
| "plain_item (JArr xs) = False"
| "plain_item (JObj fs) = plain_fields fs"
| "plain_item JNull = False"
| "plain_item JUndefined = False"
| "plain_fields [] = True"
| "plain_fields ((k, v) # fs) = ((if reserved_key k then False else plain_val v) \<and> plain_fields fs)"
| "plain_items [] = True"
| "plain_items (x # xs) = (plain_item x \<and> plain_items xs)"

text \<open>
  A number survives when it is read back from its string form. \<open>all_numbers P v\<close> says
  that every number in \<open>v\<close> has the property \<open>P\<close>, and \<open>same_up_to_numbers P v w\<close> that \<open>w\<close>
  is \<open>v\<close> up to its numbers: the same strings, booleans, keys and lengths, a number where
  \<open>v\<close> has a number, and the same number where that number has the property \<open>P\<close>.
  \<open>renumber String v\<close> is \<open>v\<close> after each of its numbers has been printed and read.
\<close>

definition survives :: "(jsnum \<Rightarrow> jstring) \<Rightarrow> jsnum \<Rightarrow> bool" where
  "survives String n = (string_to_number (String n) = n)"

fun all_numbers :: "(jsnum \<Rightarrow> bool) \<Rightarrow> jsval \<Rightarrow> bool"
  and all_numbers_fields :: "(jsnum \<Rightarrow> bool) \<Rightarrow> (jstring \<times> jsval) list \<Rightarrow> bool"
  and all_numbers_list :: "(jsnum \<Rightarrow> bool) \<Rightarrow> jsval list \<Rightarrow> bool" where
  "all_numbers P (JNum n) = P n"
| "all_numbers P (JArr xs) = all_numbers_list P xs"
| "all_numbers P (JObj fs) = all_numbers_fields P fs"
| "all_numbers P (JStr s) = True"
| "all_numbers P (JBool b) = True"
| "all_numbers P JNull = True"
| "all_numbers P JUndefined = True"
| "all_numbers_fields P [] = True"
| "all_numbers_fields P ((k, v) # fs) = (all_numbers P v \<and> all_numbers_fields P fs)"
| "all_numbers_list P [] = True"
| "all_numbers_list P (x # xs) = (all_numbers P x \<and> all_numbers_list P xs)"

fun same_up_to_numbers :: "(jsnum \<Rightarrow> bool) \<Rightarrow> jsval \<Rightarrow> jsval \<Rightarrow> bool"
  and same_fields ::
    "(jsnum \<Rightarrow> bool) \<Rightarrow> (jstring \<times> jsval) list \<Rightarrow> (jstring \<times> jsval) list \<Rightarrow> bool"
  and same_list :: "(jsnum \<Rightarrow> bool) \<Rightarrow> jsval list \<Rightarrow> jsval list \<Rightarrow> bool" where
  "same_up_to_numbers P (JNum n) w = (case w of JNum m \<Rightarrow> (if P n then m = n else True) | _ \<Rightarrow> False)"
| "same_up_to_numbers P (JArr xs) w = (case w of JArr ys \<Rightarrow> same_list P xs ys | _ \<Rightarrow> False)"
| "same_up_to_numbers P (JObj fs) w = (case w of JObj gs \<Rightarrow> same_fields P fs gs | _ \<Rightarrow> False)"
| "same_up_to_numbers P (JStr s) w = (w = JStr s)"
| "same_up_to_numbers P (JBool b) w = (w = JBool b)"
| "same_up_to_numbers P JNull w = (w = JNull)"
| "same_up_to_numbers P JUndefined w = (w = JUndefined)"
| "same_fields P [] gs = (gs = [])"
| "same_fields P ((k, v) # fs) gs =
     (case gs of
        [] \<Rightarrow> False
      | g # gs' \<Rightarrow> fst g = k \<and> same_up_to_numbers P v (snd g) \<and> same_fields P fs gs')"
| "same_list P [] ys = (ys = [])"
| "same_list P (x # xs) ys =
     (case ys of [] \<Rightarrow> False | y # ys' \<Rightarrow> same_up_to_numbers P x y \<and> same_list P xs ys')"

fun renumber :: "(jsnum \<Rightarrow> jstring) \<Rightarrow> jsval \<Rightarrow> jsval"
  and renumber_fields :: "(jsnum \<Rightarrow> jstring) \<Rightarrow> (jstring \<times> jsval) list \<Rightarrow> (jstring \<times> jsval) list"
  and renumber_list :: "(jsnum \<Rightarrow> jstring) \<Rightarrow> jsval list \<Rightarrow> jsval list" where
  "renumber String (JNum n) = JNum (string_to_number (String n))"
| "renumber String (JArr xs) = JArr (renumber_list String xs)"
| "renumber String (JObj fs) = JObj (renumber_fields String fs)"
| "renumber String (JStr s) = JStr s"
| "renumber String (JBool b) = JBool b"
| "renumber String JNull = JNull"
| "renumber String JUndefined = JUndefined"
| "renumber_fields String [] = []"
| "renumber_fields String ((k, v) # fs) = (k, renumber String v) # renumber_fields String fs"
| "renumber_list String [] = []"
| "renumber_list String (x # xs) = renumber String x # renumber_list String xs"

text \<open>
  The integers of magnitude below \<open>2 ^ 53\<close>; \<open>String\<close> prints such an integer as its
  decimal digits, with a minus sign when it is negative.
\<close>

definition safe_integer :: "jsnum \<Rightarrow> bool" where
  "safe_integer n = (case n of Fin r \<Rightarrow> of_int \<lfloor>r\<rfloor> = r \<and> \<bar>r\<bar> < 2 ^ 53 | _ \<Rightarrow> False)"

definition prints_integers :: "(jsnum \<Rightarrow> jstring) \<Rightarrow> bool" where
  "prints_integers String = (\<forall>i. \<bar>i\<bar> < 2 ^ 53 \<longrightarrow> String (Fin (of_int i)) = int_to_string i)"

text \<open>
  A string form for the sample environments: the decimal digits of an integer, as
  JavaScript prints an integer of magnitude below \<open>2 ^ 53\<close>, and for a fraction the
  integer part, a point and at most twenty fractional digits, as JavaScript prints a short
  decimal fraction such as 0.5 or 12.25. The samples print integers only.
\<close>

fun fraction_digits :: "nat \<Rightarrow> rat \<Rightarrow> jstring" where
  "fraction_digits 0 r = []"
| "fraction_digits (Suc k) r =
     (if r = 0 then []
      else (let d = nat \<lfloor>r * 10\<rfloor>
            in digit_char d # fraction_digits k (r * 10 - of_nat d)))"

definition decimal_text :: "jsnum \<Rightarrow> jstring" where
  "decimal_text n =
     (case n of
        NaN \<Rightarrow> js ''NaN''
      | PosInf \<Rightarrow> js ''Infinity''
      | NegInf \<Rightarrow> js ''-Infinity''
      | Fin r \<Rightarrow>
          (if of_int \<lfloor>r\<rfloor> = r then int_to_string \<lfloor>r\<rfloor>
           else (let a = \<bar>r\<bar>
                 in (if r < 0 then [45] else []) @ nat_to_string (nat \<lfloor>a\<rfloor>) @ [46] @
                    fraction_digits 20 (a - of_int \<lfloor>a\<rfloor>))))"

definition summary_record :: "(jstring \<times> jsval) list" where
  "summary_record =
     [(js ''analyticsId'', JNum (Fin 1)),
      (js ''topGrade'', JNum (Fin 95)),
      (js ''allPassed'', JBool False),
      (js ''note'', JStr (js ''ok'')),
      (js ''offsets'', JArr [JNum (Fin (- 3)), JStr (js ''x''), JBool True]),
      (js ''listAIAbove70'', JArr [JObj [(js ''assignmentId'', JNum (Fin 7)), (js ''grade'', JNum (Fin 0))]]),
      (js ''nested'', JObj [(js ''count'', JNum (Fin 12)), (js ''empty'', JObj [])])]"

definition tag_named_key :: jsval where
  "tag_named_key = JObj [(js ''S'', JNum (Fin 1))]"

definition list_item :: jsval where
  "list_item =
     JObj [(js ''highlightedAreaOfAIUse'',
            wrap ''L'' (JArr [wrap ''S'' (JStr (js ''10'')),
                              wrap ''M'' (JObj [(js ''line'', wrap ''N'' (JStr (js ''25'')))])]))]"

subsection \<open>Sample environments\<close>

text \<open>
  Errors as axios builds them for an HTTP status, and an environment in which nothing is
  there: no file, an endpoint that answers 502, a table that accepts every write. Numbers
  are printed by \<open>decimal_text\<close>.
\<close>

definition bad_gateway :: js_error where
  "bad_gateway =
     JsError (js ''AxiosError'') (js ''Request failed with status code 502'')
       (Some (js ''ERR_BAD_RESPONSE'')) (Some 502)"

definition not_found :: js_error where
  "not_found =
     JsError (js ''AxiosError'') (js ''Request failed with status code 404'')
       (Some (js ''ERR_BAD_REQUEST'')) (Some 404)"

definition base_env :: env where
  "base_env =
     \<lparr>readdir = Inr [],
      read_file = (\<lambda>p. Inl (new_Error (js ''ENOENT: no such file or directory''))),
      axios_post = (\<lambda>n r. Rejected bad_gateway),
      sagemaker_send = (\<lambda>n r. Inl (new_Error (js ''ModelError''))),
      put_item = (\<lambda>n v. None),
      json_parse = (\<lambda>s. Inl (js ''Unexpected token'')),
      json_stringify = (\<lambda>v. js ''[..]''),
      number_text = decimal_text\<rparr>"

definition world0 :: world where
  "world0 = \<lparr>requests = 0, sleeps = [], puts = 0\<rparr>"

text \<open>The smallest canonical body, its JSON text, and a body of neither known shape.\<close>

definition small_body :: jsval where
  "small_body = JObj [(js ''analyticsId'', wrap ''N'' (JStr (js ''1'')))]"

definition small_body_json :: jstring where
  \<open>small_body_json = js ''{"analyticsId":{"N":"1"}}''\<close>

definition json_env :: env where
  "json_env =
     base_env\<lparr>json_parse :=
       (\<lambda>s. if s = small_body_json then Inr small_body else Inl (js ''Unexpected token''))\<rparr>"

definition error_body :: jsval where
  "error_body = JObj [(js ''message'', JStr (js ''Internal server error''))]"

text \<open>An error without the two fields the retry policy reads.\<close>

definition plain_error :: "js_error \<Rightarrow> bool" where
  "plain_error e = (err_code e = None \<and> err_status e = None)"

subsection \<open>Documents of a batch\<close>

text \<open>
  A document is skipped when its text loads and \<open>Number\<close> turns the id derived from its
  name into NaN, which is the test \<open>isNaN(Number(assignmentId))\<close> of the handlers; the id
  reported for a document whose processing failed is the name without its first \<open>.txt\<close>.
\<close>

definition derived_id :: "jstring \<Rightarrow> jstring" where
  "derived_id file = remove_first (extname file) file"

definition doc_id :: "jstring \<Rightarrow> jstring" where
  "doc_id file = remove_first (js ''.txt'') file"

definition skipped :: "env \<Rightarrow> jstring \<Rightarrow> bool" where
  "skipped env file =
     (case read_file env (full_path file) of
        Inl e \<Rightarrow> False
      | Inr assignmentText \<Rightarrow> string_to_number (derived_id file) = NaN)"

definition failed_with :: "jstring \<Rightarrow> jstring \<Rightarrow> outcome" where
  "failed_with ident msg = \<lparr>assignmentId = ident, status = FAILED, error = Some msg\<rparr>"

definition succeeded :: "jstring \<Rightarrow> outcome" where
  "succeeded ident = \<lparr>assignmentId = ident, status = SUCCESS, error = None\<rparr>"


definition two_docs_env :: env where
  "two_docs_env =
     base_env\<lparr>readdir := Inr [js ''7.txt'', js ''abc.txt''],
              read_file := (\<lambda>p. if p = full_path (js ''7.txt'') then Inr (js ''hello world'')
                                else if p = full_path (js ''abc.txt'') then Inr (js ''ignored'')
                                else Inl (new_Error (js ''ENOENT: no such file or directory''))),
              axios_post := (\<lambda>n r. Resolved 200 sample_result)\<rparr>"

text \<open>A directory named \<open>abc.txt\<close>: listed by \<open>readdir\<close>, not readable as a file.\<close>

definition unreadable_env :: env where
  "unreadable_env =
     base_env\<lparr>readdir := Inr [js ''abc.txt''],
              read_file := (\<lambda>p. Inl (new_Error (js ''EISDIR: illegal operation on a directory, read'')))\<rparr>"






text \<open>
  An id in the sense of the specification, a base-10 integer: decimal digits after an
  optional sign. Documents whose ids are not of that form and yet are numbers for
  \<open>Number\<close>.
\<close>

definition base10_integer :: "jstring \<Rightarrow> bool" where
  "base10_integer s =
     (let ds = (if s \<noteq> [] \<and> (hd s = 45 \<or> hd s = 43) then tl s else s)
      in ds \<noteq> [] \<and> list_all is_digit ds)"

definition odd_ids_env :: env where
  "odd_ids_env =
     base_env\<lparr>readdir := Inr [js ''3.5.txt'', js ''0x10.txt'', js ''1e3.txt'', js ''Infinity.txt'',
                              js '' .txt''],
              read_file := (\<lambda>p. Inr (js ''An essay.'')),
              axios_post := (\<lambda>n r. Resolved 200 sample_result)\<rparr>"

text \<open>What one pass of the loop contributes for a document.\<close>

definition reports_once :: "env \<Rightarrow> jstring \<Rightarrow> outcome option \<Rightarrow> bool" where
  "reports_once env f r =
     (case r of None \<Rightarrow> skipped env f
      | Some out \<Rightarrow> \<not> skipped env f \<and> assignmentId out = doc_id f)"

section \<open>Properties of the sanitizer\<close>

lemma collapse_run:
  "is_space c \<Longrightarrow> cs \<noteq> [] \<Longrightarrow> is_space (hd cs) \<Longrightarrow>
   collapse_spaces (c # cs) = 32 # collapse_spaces (dropWhile is_space cs)"
  by simp

lemma collapse_keep:
  "\<not> (is_space c \<and> cs \<noteq> [] \<and> is_space (hd cs)) \<Longrightarrow>
   collapse_spaces (c # cs) = c # collapse_spaces cs"
  unfolding collapse_spaces.simps(2)[of c cs] by (rule if_not_P)

declare collapse_spaces.simps(2) [simp del]

lemma collapse_no_adj: "no_adjacent_spaces (collapse_spaces s)"
proof (induction s rule: collapse_spaces.induct)
  case 1
  show ?case by simp
next
  case (2 c cs)
  show ?case
  proof (cases "is_space c \<and> cs \<noteq> [] \<and> is_space (hd cs)")
    case True
    let ?r = "dropWhile is_space cs"
    have eq: "collapse_spaces (c # cs) = 32 # collapse_spaces ?r"
      using True by (simp add: collapse_run)
    have ih: "no_adjacent_spaces (collapse_spaces ?r)"
      using 2(1) True by simp
    show ?thesis
    proof (cases ?r)
      case Nil
      then have "collapse_spaces ?r = []" by (simp only: collapse_spaces.simps(1))
      then show ?thesis unfolding eq by (simp only: no_adjacent_spaces.simps)
    next
      case (Cons d ds)
      then have nd: "\<not> is_space d"
        using hd_dropWhile[of is_space cs] by simp
      then have "collapse_spaces ?r = d # collapse_spaces ds"
        using Cons by (simp add: collapse_keep)
      then show ?thesis using ih nd unfolding eq by simp
    qed
  next
    case False
    then have eq: "collapse_spaces (c # cs) = c # collapse_spaces cs"
      by (rule collapse_keep)
    have ih: "no_adjacent_spaces (collapse_spaces cs)"
      using 2(2) False by simp
    show ?thesis
    proof (cases cs)
      case Nil
      then show ?thesis unfolding eq by simp
    next
      case (Cons d ds)
      show ?thesis
      proof (cases "is_space d")
        case True
        then have "\<not> is_space c" using False Cons by simp
        then show ?thesis using ih unfolding eq by (cases "collapse_spaces cs") simp_all
      next
        case False
        then have "collapse_spaces cs = d # collapse_spaces ds"
          using Cons by (simp add: collapse_keep)
        then show ?thesis using ih False unfolding eq by simp
      qed
    qed
  qed
qed

lemma collapse_fixed: "no_adjacent_spaces s \<Longrightarrow> collapse_spaces s = s"
proof (induction s rule: no_adjacent_spaces.induct)
  case (1 a b cs)
  then have "collapse_spaces (a # b # cs) = a # collapse_spaces (b # cs)"
    by (simp add: collapse_keep)
  then show ?case using 1 by simp
qed (simp_all add: collapse_keep)

lemma no_adj_suffix: "no_adjacent_spaces (xs @ ys) \<Longrightarrow> no_adjacent_spaces ys"
proof (induction xs)
  case Nil
  then show ?case by simp
next
  case (Cons x xs)
  then show ?case by (cases "xs @ ys") auto
qed

lemma no_adj_prefix: "no_adjacent_spaces (xs @ ys) \<Longrightarrow> no_adjacent_spaces xs"
proof (induction xs rule: no_adjacent_spaces.induct)
  case (1 a b cs)
  then show ?case by simp
qed simp_all

lemma no_adj_dropWhile: "no_adjacent_spaces s \<Longrightarrow> no_adjacent_spaces (dropWhile P s)"
  using no_adj_suffix[of "takeWhile P s" "dropWhile P s"] by simp

lemma rev_dropWhile_rev_prefix: "\<exists>ys. s = rev (dropWhile P (rev s)) @ ys"
proof -
  have "rev (dropWhile P (rev s)) @ rev (takeWhile P (rev s)) = rev (takeWhile P (rev s) @ dropWhile P (rev s))"
    by (simp only: rev_append)
  also have "\<dots> = s" by (simp only: takeWhile_dropWhile_id rev_rev_ident)
  finally show ?thesis by metis
qed

lemma no_adj_trim: "no_adjacent_spaces s \<Longrightarrow> no_adjacent_spaces (trim s)"
proof -
  assume a: "no_adjacent_spaces s"
  let ?d = "dropWhile is_space s"
  have d: "no_adjacent_spaces ?d" using a by (rule no_adj_dropWhile)
  obtain ys where "?d = rev (dropWhile is_space (rev ?d)) @ ys"
    using rev_dropWhile_rev_prefix[of ?d is_space] by blast
  then have "no_adjacent_spaces (rev (dropWhile is_space (rev ?d)) @ ys)" using d by simp
  then show ?thesis unfolding trim_def by (rule no_adj_prefix)
qed

lemma trimmed_fixed: "trimmed s \<Longrightarrow> trim s = s"
proof (cases s)
  case Nil
  then show ?thesis by (simp add: trim_def)
next
  case (Cons a as)
  assume "trimmed s"
  then have h: "\<not> is_space (hd s)" and l: "\<not> is_space (last s)" using Cons by (simp_all add: trimmed_def)
  have 1: "dropWhile is_space s = s" using h Cons by simp
  have "rev s \<noteq> []" using Cons by simp
  moreover have "hd (rev s) = last s" using Cons by (simp add: hd_rev)
  ultimately have "dropWhile is_space (rev s) = rev s" using l by (simp only: dropWhile_eq_self_iff simp_thms)
  then show ?thesis using 1 by (simp add: trim_def)
qed

lemma trim_trimmed: "trimmed (trim s)"
proof -
  let ?d = "dropWhile is_space s"
  let ?e = "dropWhile is_space (rev ?d)"
  show ?thesis
  proof (cases "?e = []")
    case True
    then show ?thesis by (simp add: trim_def trimmed_def)
  next
    case False
    then have l: "\<not> is_space (hd ?e)" using hd_dropWhile[of is_space "rev ?d"] by simp
    have "last (rev ?e) = hd ?e" using False by (simp add: last_rev)
    then have 1: "\<not> is_space (last (trim s))" using l by (simp add: trim_def)
    have "?d \<noteq> []"
    proof
      assume "?d = []"
      then have "?e = []" by (simp only: rev.simps dropWhile.simps)
      with False show False by contradiction
    qed
    then have hd: "\<not> is_space (hd ?d)" using hd_dropWhile[of is_space s] by simp
    obtain ys where ys: "?d = rev ?e @ ys" using rev_dropWhile_rev_prefix[of ?d is_space] by blast
    have "rev ?e \<noteq> []" using False by simp
    then have "hd ?d = hd (rev ?e)" using ys by (metis hd_append2)
    then have "\<not> is_space (hd (trim s))" using hd by (simp add: trim_def)
    then show ?thesis using 1 by (simp add: trimmed_def)
  qed
qed

lemma plain_32: "plain_char 32" by (simp add: plain_char_def in_safe_class_def)

lemma set_replace_crlf: "set (replace_crlf s) \<subseteq> insert 32 (set s)"
  by (induction s rule: replace_crlf.induct) auto

lemma set_collapse: "set (collapse_spaces s) \<subseteq> insert 32 (set s)"
proof (induction s rule: collapse_spaces.induct)
  case 1
  show ?case by simp
next
  case (2 c cs)
  show ?case
  proof (cases "is_space c \<and> cs \<noteq> [] \<and> is_space (hd cs)")
    case True
    then have "set (collapse_spaces (dropWhile is_space cs)) \<subseteq> insert 32 (set (dropWhile is_space cs))"
      using 2(1) by simp
    moreover have "set (dropWhile is_space cs) \<subseteq> set cs" by (rule set_dropWhileD[THEN subsetI])
    ultimately show ?thesis using True by (auto simp: collapse_run)
  next
    case False
    then have "set (collapse_spaces cs) \<subseteq> insert 32 (set cs)" using 2(2) by simp
    then show ?thesis using False by (auto simp: collapse_keep)
  qed
qed

lemma set_trim: "set (trim s) \<subseteq> set s"
  by (auto simp: trim_def dest!: set_dropWhileD)


lemma set_replace_char: "set (replace_char a b s) \<subseteq> insert b (set s - {a})"
  by (auto simp: replace_char_def)

lemma replace_char_absent: "a \<notin> set s \<Longrightarrow> replace_char a b s = s"
  by (induction s) (auto simp: replace_char_def)

lemma replace_crlf_absent: "13 \<notin> set s \<Longrightarrow> replace_crlf s = s"
  by (induction s rule: replace_crlf.induct) auto

lemma plain_char_facts:
  "plain_char c \<Longrightarrow> in_safe_class c \<and> c \<noteq> 0 \<and> c \<noteq> 9 \<and> c \<noteq> 10 \<and> c \<noteq> 12 \<and> c \<noteq> 13"
  by (auto simp: plain_char_def in_safe_class_def)

lemma clean_sanitizeText: "clean s \<Longrightarrow> sanitizeText s = s"
proof -
  assume "clean s"
  then have p: "\<forall>c \<in> set s. plain_char c" by (simp add: clean_def)
  have 0: "filter (\<lambda>c. c \<noteq> 0) s = s" using p plain_char_facts by (auto simp: filter_id_conv)
  have 1: "replace_char 12 10 s = s" using p plain_char_facts by (intro replace_char_absent) auto
  have 2: "replace_char 13 10 s = s" using p plain_char_facts by (intro replace_char_absent) auto
  have 3: "filter in_safe_class s = s" using p plain_char_facts by (auto simp: filter_id_conv)
  show ?thesis by (simp add: sanitizeText_def 0 1 2 3)
qed

lemma clean_normalize: "clean s \<Longrightarrow> normalizeForOneLine s = s"
proof -
  assume c: "clean s"
  then have p: "\<forall>c \<in> set s. plain_char c" by (simp add: clean_def)
  have 0: "filter (\<lambda>c. c \<noteq> 0) s = s" using p plain_char_facts by (auto simp: filter_id_conv)
  have 1: "replace_char 12 32 s = s" using p plain_char_facts by (intro replace_char_absent) auto
  have 2: "replace_crlf s = s" using p plain_char_facts by (intro replace_crlf_absent) auto
  have 3: "replace_char 13 32 s = s" using p plain_char_facts by (intro replace_char_absent) auto
  have 4: "replace_char 10 32 s = s" using p plain_char_facts by (intro replace_char_absent) auto
  have 5: "replace_char 9 32 s = s" using p plain_char_facts by (intro replace_char_absent) auto
  have 6: "collapse_spaces s = s" using c by (simp add: clean_def collapse_fixed)
  have 7: "trim s = s" using c by (simp add: clean_def trimmed_fixed)
  show ?thesis by (simp add: normalizeForOneLine_def 0 1 2 3 4 5 6 7)
qed

lemma plain_after_replacements:
  assumes "\<forall>c \<in> set t. in_safe_class c"
  shows "\<forall>c \<in> set (replace_char 9 32 (replace_char 10 32 (replace_char 13 32
            (replace_crlf (replace_char 12 32 (filter (\<lambda>c. c \<noteq> 0) t)))))). plain_char c"
proof
  fix c
  let ?a = "replace_crlf (replace_char 12 32 (filter (\<lambda>c. c \<noteq> 0) t))"
  assume "c \<in> set (replace_char 9 32 (replace_char 10 32 (replace_char 13 32 ?a)))"
  then have "c = 32 \<or> (c \<in> set ?a \<and> c \<noteq> 9 \<and> c \<noteq> 10 \<and> c \<noteq> 13)"
    using set_replace_char[of 9 32] set_replace_char[of 10 32] set_replace_char[of 13 32] by blast
  moreover have "set ?a \<subseteq> insert 32 (set t)"
    using set_replace_crlf[of "replace_char 12 32 (filter (\<lambda>c. c \<noteq> 0) t)"]
      set_replace_char[of 12 32 "filter (\<lambda>c. c \<noteq> 0) t"] by auto
  ultimately have "c = 32 \<or> (in_safe_class c \<and> c \<noteq> 9 \<and> c \<noteq> 10 \<and> c \<noteq> 13)"
    using assms by blast
  then show "plain_char c" using plain_32 by (auto simp: plain_char_def)
qed

lemma sanitize_clean: "clean (sanitize s)"
proof -
  let ?t = "sanitizeText s"
  let ?u = "replace_char 9 32 (replace_char 10 32 (replace_char 13 32
            (replace_crlf (replace_char 12 32 (filter (\<lambda>c. c \<noteq> 0) ?t)))))"
  have st: "\<forall>c \<in> set ?t. in_safe_class c" by (simp add: sanitizeText_def)
  have u: "\<forall>c \<in> set ?u. plain_char c" using st by (rule plain_after_replacements)
  have "set (collapse_spaces ?u) \<subseteq> insert 32 (set ?u)" by (rule set_collapse)
  then have cu: "\<forall>c \<in> set (collapse_spaces ?u). plain_char c" using u plain_32 by blast
  have eq: "sanitize s = trim (collapse_spaces ?u)"
    by (simp add: sanitize_def normalizeForOneLine_def)
  have "\<forall>c \<in> set (trim (collapse_spaces ?u)). plain_char c"
    using cu set_trim[of "collapse_spaces ?u"] by blast
  moreover have "no_adjacent_spaces (trim (collapse_spaces ?u))"
    by (intro no_adj_trim collapse_no_adj)
  moreover have "trimmed (trim (collapse_spaces ?u))" by (rule trim_trimmed)
  ultimately show ?thesis unfolding eq clean_def by blast
qed

text \<open>
  Claim C9. The sanitizer, \<open>sanitizeText\<close> followed by \<open>normalizeForOneLine\<close>, is
  idempotent: applied to its own output it returns that output unchanged, for every
  input string.
\<close>

theorem sanitize_idempotent: "sanitize (sanitize s) = sanitize s"
proof -
  have c: "clean (sanitize s)" by (rule sanitize_clean)
  have "sanitize (sanitize s) = normalizeForOneLine (sanitizeText (sanitize s))"
    by (simp only: sanitize_def)
  also have "\<dots> = normalizeForOneLine (sanitize s)" using c by (simp only: clean_sanitizeText)
  also have "\<dots> = sanitize s" using c by (rule clean_normalize)
  finally show ?thesis .
qed

section \<open>Properties of numbers\<close>

declare nat_to_string.simps [simp del]

lemma nat_to_string_small: "n < 10 \<Longrightarrow> nat_to_string n = [digit_char n]"
  by (subst nat_to_string.simps) simp

lemma nat_to_string_large:
  "\<not> n < 10 \<Longrightarrow> nat_to_string n = nat_to_string (n div 10) @ [digit_char (n mod 10)]"
  by (subst nat_to_string.simps) simp

lemma unat_digit_char: "d < 10 \<Longrightarrow> unat (digit_char d) = 48 + d"
  by (simp add: digit_char_def unat_of_nat del: of_nat_add)

lemma is_digit_digit_char: "d < 10 \<Longrightarrow> is_digit (digit_char d)"
  by (simp add: is_digit_def unat_digit_char)

lemma digit_value_digit_char: "d < 10 \<Longrightarrow> digit_value (digit_char d) = d"
  by (simp add: digit_value_def unat_digit_char)

lemma nat_to_string_digits: "nat_to_string n \<noteq> [] \<and> list_all is_digit (nat_to_string n)"
proof (induction n rule: nat_to_string.induct)
  case (1 n)
  show ?case
  proof (cases "n < 10")
    case True
    then show ?thesis by (simp add: nat_to_string_small is_digit_digit_char)
  next
    case False
    then show ?thesis using 1 by (simp add: nat_to_string_large is_digit_digit_char)
  qed
qed

lemma digits_value_snoc: "digits_value b (ds @ [c]) = digits_value b ds * b + digit_value c"
  by (simp add: digits_value_def)

lemma digits_value_nat_to_string: "digits_value 10 (nat_to_string n) = n"
proof (induction n rule: nat_to_string.induct)
  case (1 n)
  show ?case
  proof (cases "n < 10")
    case True
    then show ?thesis
      by (simp add: nat_to_string_small digits_value_def digit_value_digit_char)
  next
    case False
    then show ?thesis using 1
      by (simp add: nat_to_string_large digits_value_snoc digit_value_digit_char)
  qed
qed

lemma digit_not_space: "is_digit c \<Longrightarrow> \<not> is_space c"
  by (auto simp: is_digit_def is_space_def)

lemma trim_no_space_ends:
  "s \<noteq> [] \<Longrightarrow> \<not> is_space (hd s) \<Longrightarrow> \<not> is_space (last s) \<Longrightarrow> trim s = s"
  using trimmed_fixed[of s] by (simp add: trimmed_def)

lemma parse_unsigned_digits:
  assumes "ds \<noteq> []" "list_all is_digit ds"
  shows "parse_unsigned_decimal ds = Fin (of_nat (digits_value 10 ds))"
proof -
  have "is_digit (hd ds)" using assms by (cases ds) simp_all
  moreover have "\<not> is_digit 73" by (simp add: is_digit_def)
  ultimately have "hd ds \<noteq> 73" by auto
  then have ni: "ds \<noteq> js ''Infinity''" by (auto simp: js_def)
  have tw: "takeWhile is_digit ds = ds" using assms(2) by (simp add: list_all_iff)
  have dw: "dropWhile is_digit ds = []" using assms(2) by (simp add: list_all_iff)
  show ?thesis using ni assms(1)
    by (simp add: parse_unsigned_decimal_def tw dw parse_exponent_def scale10_def)
qed

lemma parse_radix_no_letter:
  assumes "list_all is_digit ds"
  shows "parse_radix (c # ds) = None"
proof (cases ds)
  case Nil
  then show ?thesis by (simp add: parse_radix_def)
next
  case (Cons x xs)
  then have "is_digit x" using assms by simp
  then have "x \<noteq> 120 \<and> x \<noteq> 88 \<and> x \<noteq> 111 \<and> x \<noteq> 79 \<and> x \<noteq> 98 \<and> x \<noteq> 66"
    by (auto simp: is_digit_def)
  then show ?thesis using Cons by (simp add: parse_radix_def)
qed

lemma string_to_number_digits:
  assumes "ds \<noteq> []" "list_all is_digit ds"
  shows "string_to_number ds = Fin (of_nat (digits_value 10 ds))"
    and "string_to_number (45 # ds) = Fin (- of_nat (digits_value 10 ds))"
    and "string_to_number (43 # ds) = Fin (of_nat (digits_value 10 ds))"
proof -
  have h: "is_digit (hd ds)" and l: "is_digit (last ds)"
    using assms by (auto simp: list_all_iff)
  have t1: "trim ds = ds"
    using assms(1) h l by (intro trim_no_space_ends) (auto dest: digit_not_space)
  have "\<not> is_space 45" by (simp add: is_space_def)
  then have t2: "trim (45 # ds) = 45 # ds"
    using assms(1) l by (intro trim_no_space_ends) (auto dest: digit_not_space)
  have "\<not> is_space 43" by (simp add: is_space_def)
  then have t3: "trim (43 # ds) = 43 # ds"
    using assms(1) l by (intro trim_no_space_ends) (auto dest: digit_not_space)
  have r3: "parse_radix (43 # ds) = None" using assms(2) by (rule parse_radix_no_letter)
  show "string_to_number (43 # ds) = Fin (of_nat (digits_value 10 ds))"
    using assms by (simp add: string_to_number_def t3 r3 parse_unsigned_digits)
  have "\<not> is_digit 43" "\<not> is_digit 45" by (simp_all add: is_digit_def)
  then have hd: "hd ds \<noteq> 43" "hd ds \<noteq> 45" using h by auto
  have r1: "parse_radix ds = None"
    using assms parse_radix_no_letter[of "tl ds" "hd ds"] by (cases ds) simp_all
  have r2: "parse_radix (45 # ds) = None" using assms(2) by (rule parse_radix_no_letter)
  show "string_to_number ds = Fin (of_nat (digits_value 10 ds))"
    using assms hd by (simp add: string_to_number_def t1 r1 parse_unsigned_digits)
  show "string_to_number (45 # ds) = Fin (- of_nat (digits_value 10 ds))"
    using assms by (simp add: string_to_number_def t2 r2 parse_unsigned_digits negate_def)
qed

lemma base10_integer_numeric:
  assumes "base10_integer s"
  shows "string_to_number s \<noteq> NaN"
proof (cases "s \<noteq> [] \<and> (hd s = 45 \<or> hd s = 43)")
  case True
  then obtain c ds where s: "s = c # ds" "c = 45 \<or> c = 43" by (cases s) auto
  then have "ds \<noteq> []" "list_all is_digit ds" using assms by (auto simp: base10_integer_def)
  then show ?thesis using s string_to_number_digits(2,3)[of ds] by auto
next
  case False
  then have "s \<noteq> []" "list_all is_digit s" using assms by (auto simp: base10_integer_def Let_def)
  then show ?thesis using string_to_number_digits(1)[of s] by simp
qed

lemma int_roundtrip: "string_to_number (int_to_string i) = Fin (of_int i)"
proof (cases "i < 0")
  case True
  have "string_to_number (int_to_string i) = Fin (- of_nat (nat (- i)))"
    using True string_to_number_digits(2)[of "nat_to_string (nat (- i))"] nat_to_string_digits[of "nat (- i)"]
    by (simp add: int_to_string_def digits_value_nat_to_string)
  also have "- (of_nat (nat (- i)) :: rat) = of_int i" using True by simp
  finally show ?thesis .
next
  case False
  have "string_to_number (int_to_string i) = Fin (of_nat (nat i))"
    using False string_to_number_digits(1)[of "nat_to_string (nat i)"] nat_to_string_digits[of "nat i"]
    by (simp add: int_to_string_def digits_value_nat_to_string)
  also have "(of_nat (nat i) :: rat) = of_int i" using False by simp
  finally show ?thesis .
qed

lemma decimal_text_int: "decimal_text (Fin (of_int i)) = int_to_string i"
  by (simp add: decimal_text_def)

lemma safe_integer_survives:
  assumes "prints_integers String" "safe_integer n"
  shows "survives String n"
proof -
  obtain r where n: "n = Fin r" and i: "of_int \<lfloor>r\<rfloor> = r" and b: "\<bar>r\<bar> < 2 ^ 53"
    using assms(2) by (cases n) (simp_all add: safe_integer_def)
  have "\<bar>(of_int \<lfloor>r\<rfloor> :: rat)\<bar> < 2 ^ 53" unfolding i by (rule b)
  then have "(of_int \<bar>\<lfloor>r\<rfloor>\<bar> :: rat) < of_int (2 ^ 53)" by simp
  then have "\<bar>\<lfloor>r\<rfloor>\<bar> < 2 ^ 53" by (simp only: of_int_less_iff)
  then have "String (Fin (of_int \<lfloor>r\<rfloor>)) = int_to_string \<lfloor>r\<rfloor>"
    using assms(1) by (simp add: prints_integers_def)
  then have "string_to_number (String (Fin (of_int \<lfloor>r\<rfloor>))) = Fin (of_int \<lfloor>r\<rfloor>)"
    by (simp add: int_roundtrip)
  then show ?thesis unfolding i n survives_def .
qed

lemma all_numbers_mono:
  assumes "\<And>n. P n \<Longrightarrow> Q n"
  shows "(all_numbers P v \<longrightarrow> all_numbers Q v)"
    "(all_numbers_fields P fs \<longrightarrow> all_numbers_fields Q fs)"
    "(all_numbers_list P xs \<longrightarrow> all_numbers_list Q xs)"
  using assms
  by (induction P v and P fs and P xs rule: all_numbers_all_numbers_fields_all_numbers_list.induct)
     simp_all

section \<open>Properties of the validator\<close>

lemma get_prop_defined:
  "result \<noteq> JUndefined \<Longrightarrow> result \<noteq> JNull \<Longrightarrow> \<exists>v. get_prop result k = Inr v"
  by (cases result) (simp_all add: get_prop_def)

lemma check_required_filter:
  assumes "result \<noteq> JUndefined" "result \<noteq> JNull"
  shows "check_required result fs =
           (case filter (field_falsy result) fs of [] \<Rightarrow> Inr () | f # rest \<Rightarrow> Inl (missing_field f))"
proof (induction fs)
  case Nil
  show ?case by simp
next
  case (Cons f fs)
  obtain v where v: "get_prop result (js f) = Inr v"
    using get_prop_defined[OF assms] by blast
  show ?case using Cons v by (simp add: field_falsy_def)
qed

text \<open>
  Claim C5. For every result (any value other than null and undefined, on which reading a
  field does not itself throw), \<open>validateDynamoDBStructure\<close> looks at the seven fields in
  the order analyticsId, assignmentId, gradeReceived, aiGeneratedAnalytics,
  plagarismAnalytics, gradeReasoning, remarks and throws for the first one that is falsy,
  however many are: an \<open>Error\<close> whose message is \<open>Missing required field: \<close> followed by the
  name of that field. It returns true when all seven are truthy.
\<close>

theorem validate_first_missing:
  assumes "result \<noteq> JUndefined" "result \<noteq> JNull"
  shows "validateDynamoDBStructure result =
           (case filter (field_falsy result)
                   [''analyticsId'', ''assignmentId'', ''gradeReceived'', ''aiGeneratedAnalytics'',
                    ''plagarismAnalytics'', ''gradeReasoning'', ''remarks''] of
              [] \<Rightarrow> Inr True
            | f # rest \<Rightarrow>
                Inl (JsError (js ''Error'') (js ''Missing required field: '' @ js f) None None))"
  unfolding validateDynamoDBStructure_def check_required_filter[OF assms]
  by (simp add: required_def missing_field_def new_Error_def split: list.splits)

lemma two_missing_fields:
  "filter (field_falsy two_missing)
     [''analyticsId'', ''assignmentId'', ''gradeReceived'', ''aiGeneratedAnalytics'',
      ''plagarismAnalytics'', ''gradeReasoning'', ''remarks''] =
   [''aiGeneratedAnalytics'', ''gradeReasoning'', ''remarks'']"
  by (simp add: two_missing_def field_falsy_def get_prop_def js_def truthy_def)

lemma first_missing_message:
  "js ''Missing required field: '' @ js ''aiGeneratedAnalytics'' =
   js ''Missing required field: aiGeneratedAnalytics''"
  by (simp add: js_def)

theorem validate_first_missing_witness:
  "two_missing \<noteq> JUndefined \<and> two_missing \<noteq> JNull \<and>
   get_prop two_missing (js ''aiGeneratedAnalytics'') = Inr JUndefined \<and>
   get_prop two_missing (js ''gradeReasoning'') = Inr JUndefined \<and>
   get_prop two_missing (js ''remarks'') = Inr (JStr []) \<and>
   validateDynamoDBStructure two_missing =
     Inl (JsError (js ''Error'') (js ''Missing required field: aiGeneratedAnalytics'') None None) \<and>
   validateDynamoDBStructure sample_result = Inr True"
proof -
  have 1: "two_missing \<noteq> JUndefined" and 2: "two_missing \<noteq> JNull"
    by (simp_all add: two_missing_def)
  have 3: "sample_result \<noteq> JUndefined" and 4: "sample_result \<noteq> JNull"
    by (simp_all add: sample_result_def)
  have g: "get_prop two_missing (js ''aiGeneratedAnalytics'') = Inr JUndefined"
    "get_prop two_missing (js ''gradeReasoning'') = Inr JUndefined"
    "get_prop two_missing (js ''remarks'') = Inr (JStr [])"
    by (simp_all add: two_missing_def get_prop_def js_def)
  have s: "filter (field_falsy sample_result)
     [''analyticsId'', ''assignmentId'', ''gradeReceived'', ''aiGeneratedAnalytics'',
      ''plagarismAnalytics'', ''gradeReasoning'', ''remarks''] = []"
    by (simp add: sample_result_def field_falsy_def get_prop_def js_def truthy_def wrap_def)
  have a: "validateDynamoDBStructure two_missing =
     Inl (JsError (js ''Error'') (js ''Missing required field: aiGeneratedAnalytics'') None None)"
    using validate_first_missing[OF 1 2]
    by (simp only: two_missing_fields list.case first_missing_message)
  have b: "validateDynamoDBStructure sample_result = Inr True"
    using validate_first_missing[OF 3 4] by (simp only: s list.case)
  show ?thesis using 1 2 g a b by blast
qed

lemma get_prop_Inr_not_nullish:
  "get_prop result k = Inr v \<Longrightarrow> result \<noteq> JUndefined \<and> result \<noteq> JNull"
  by (cases result) (simp_all add: get_prop_def)

lemma check_required_nullish:
  "result = JUndefined \<or> result = JNull \<Longrightarrow> fs \<noteq> [] \<Longrightarrow> \<exists>e. check_required result fs = Inl e"
  by (cases fs) (auto simp: get_prop_def)

lemma validate_accepts_only_complete:
  assumes "validateDynamoDBStructure r = Inr True"
  shows "missing_fields r = []"
proof -
  have ok: "\<exists>u. check_required r required = Inr u"
    using assms by (auto simp: validateDynamoDBStructure_def split: sum.splits)
  have "required \<noteq> []" by (simp add: required_def)
  then have nn: "r \<noteq> JUndefined" "r \<noteq> JNull"
    using ok check_required_nullish[of r required] by auto
  show ?thesis
    using ok check_required_filter[OF nn, of required]
    by (auto simp: missing_fields_def split: list.splits)
qed

text \<open>
  Claim C4, amended. For every result whose gradeReceived is exactly 0,
  \<open>validateDynamoDBStructure\<close> rejects it: it throws the missing-field error for
  gradeReceived when analyticsId and assignmentId are truthy, and the error for the first
  falsy one of those two otherwise, a zero grade being treated like a missing field. A
  result is accepted only if none of the seven fields is missing or falsy.
\<close>

theorem zero_grade_rejected:
  assumes "get_prop result (js ''gradeReceived'') = Inr (JNum (Fin 0))"
  shows "validateDynamoDBStructure result =
           Inl (missing_field
                  (if field_falsy result ''analyticsId'' then ''analyticsId''
                   else if field_falsy result ''assignmentId'' then ''assignmentId''
                   else ''gradeReceived'')) \<and>
         (\<forall>r. validateDynamoDBStructure r = Inr True \<longrightarrow> missing_fields r = [])"
proof -
  have nn: "result \<noteq> JUndefined" "result \<noteq> JNull"
    using get_prop_Inr_not_nullish[OF assms] by simp_all
  have g: "field_falsy result ''gradeReceived''"
    using assms by (simp add: field_falsy_def truthy_def)
  have "check_required result required =
          Inl (missing_field
                 (if field_falsy result ''analyticsId'' then ''analyticsId''
                  else if field_falsy result ''assignmentId'' then ''assignmentId''
                  else ''gradeReceived''))"
    unfolding check_required_filter[OF nn] using g by (simp add: required_def)
  then show ?thesis
    using validate_accepts_only_complete by (simp add: validateDynamoDBStructure_def)
qed

lemma zero_grade_fields:
  "get_prop zero_grade (js ''gradeReceived'') = Inr (JNum (Fin 0))"
  "\<not> field_falsy zero_grade ''analyticsId''"
  "\<not> field_falsy zero_grade ''assignmentId''"
  by (simp_all add: zero_grade_def field_falsy_def get_prop_def js_def truthy_def)

lemma sample_result_valid: "validateDynamoDBStructure sample_result = Inr True"
  by (simp add: sample_result_def validateDynamoDBStructure_def required_def get_prop_def
      js_def truthy_def wrap_def)

theorem zero_grade_rejected_witness:
  "get_prop zero_grade (js ''gradeReceived'') = Inr (JNum (Fin 0)) \<and>
   validateDynamoDBStructure zero_grade = Inl (missing_field ''gradeReceived'') \<and>
   validateDynamoDBStructure sample_result = Inr True \<and>
   missing_fields sample_result = []"
  using zero_grade_rejected[OF zero_grade_fields(1)] zero_grade_fields sample_result_valid
  by simp

theorem zero_grade_counterexample:
  "get_prop only_zero_grade (js ''gradeReceived'') = Inr (JNum (Fin 0)) \<and>
   validateDynamoDBStructure only_zero_grade = Inl (missing_field ''analyticsId'') \<and>
   validateDynamoDBStructure only_zero_grade \<noteq> Inl (missing_field ''gradeReceived'')"
  by (simp add: only_zero_grade_def validateDynamoDBStructure_def required_def get_prop_def
      js_def truthy_def missing_field_def new_Error_def)

section \<open>Properties of the codec\<close>

lemmas codec_eval =
  js_def wrap_def field_def has_tag_def has_key_def truthy_def to_number_def

lemma convert_analytics_wrap:
  "convert_analytics (wrap ''S'' (JStr s)) = Inr (JStr s)"
  "convert_analytics (wrap ''N'' (JStr s)) = Inr (JNum (string_to_number s))"
  "convert_analytics (wrap ''BOOL'' (JBool b)) = Inr (JBool b)"
  "convert_analytics (wrap ''M'' (JObj fs)) = convert_analytics (JObj fs)"
  "convert_analytics (wrap ''L'' (JArr xs)) =
     (case convert_analytics_list xs of Inl e \<Rightarrow> Inl e | Inr ys \<Rightarrow> Inr (JArr ys))"
  by (simp_all add: codec_eval)

lemma map_of_encode_fields: "(map_of (encode_fields String fs) k = None) = (map_of fs k = None)"
  by (induction fs) auto

lemma plain_fields_no_tag: "plain_fields fs \<Longrightarrow> is_tag k \<Longrightarrow> map_of fs k = None"
  by (induction fs) (auto simp: reserved_key_def split: if_splits)

lemma plain_fields_encode_untagged: "plain_fields fs \<Longrightarrow> \<not> has_tag (encode_fields String fs)"
  by (simp add: has_tag_def has_key_def map_of_encode_fields plain_fields_no_tag is_tag_def)

lemma convert_analytics_untagged:
  "\<not> has_tag fs \<Longrightarrow>
   convert_analytics (JObj fs) =
     (case convert_analytics_fields fs of Inl e \<Rightarrow> Inl e | Inr out \<Rightarrow> Inr (JObj out))"
  by simp

lemma roundtrip_mutual:
  "(plain_val v \<longrightarrow> convert_analytics (encode_val String v) = Inr (renumber String v))"
  "(plain_item x \<longrightarrow> convert_analytics (encode_item String x) = Inr (renumber String x))"
  "(plain_fields fs \<longrightarrow>
      convert_analytics_fields (encode_fields String fs) = Inr (renumber_fields String fs))"
  "(plain_items xs \<longrightarrow>
      convert_analytics_list (encode_items String xs) = Inr (renumber_list String xs))"
proof (induction v and x and fs and xs rule: plain_val_plain_item_plain_fields_plain_items.induct)
  case (4 xs)
  then show ?case by (simp add: convert_analytics_wrap)
next
  case (5 fs)
  then show ?case
    by (simp add: convert_analytics_wrap convert_analytics_untagged plain_fields_encode_untagged
        del: convert_analytics.simps)
next
  case (12 fs)
  then show ?case
    by (simp add: convert_analytics_wrap convert_analytics_untagged plain_fields_encode_untagged
        del: convert_analytics.simps)
qed (simp_all add: convert_analytics_wrap del: convert_analytics.simps)

lemma roundtrip_object:
  assumes "plain_fields fs"
  shows "convert_analytics (toDynamoDBFormat String (JObj fs)) = Inr (renumber String (JObj fs))"
  using assms roundtrip_mutual(3)[of fs String]
  by (simp add: convert_analytics_untagged plain_fields_encode_untagged
      del: convert_analytics.simps)

lemma renumber_same:
  "same_up_to_numbers (survives String) v (renumber String v)"
  "same_fields (survives String) fs (renumber_fields String fs)"
  "same_list (survives String) xs (renumber_list String xs)"
  by (induction String v and String fs and String xs rule: renumber_renumber_fields_renumber_list.induct)
     (simp_all add: survives_def)

lemma renumber_survives:
  "(all_numbers (survives String) v \<longrightarrow> renumber String v = v)"
  "(all_numbers_fields (survives String) fs \<longrightarrow> renumber_fields String fs = fs)"
  "(all_numbers_list (survives String) xs \<longrightarrow> renumber_list String xs = xs)"
  by (induction String v and String fs and String xs rule: renumber_renumber_fields_renumber_list.induct)
     (simp_all add: survives_def)

lemma same_mono:
  assumes "\<And>n. P n \<Longrightarrow> Q n"
  shows "(same_up_to_numbers Q v w \<longrightarrow> same_up_to_numbers P v w)"
    "(same_fields Q fs gs \<longrightarrow> same_fields P fs gs)"
    "(same_list Q xs ys \<longrightarrow> same_list P xs ys)"
  using assms
  by (induction Q v w and Q fs gs and Q xs ys
      rule: same_up_to_numbers_same_fields_same_list.induct)
     (auto split: jsval.splits list.splits)

text \<open>
  Claim C6, amended. For every plain object built by nesting strings, numbers, booleans,
  objects and lists in which no object has a key named S, N, BOOL, M, L or \<open>__proto__\<close>
  and no list is an element of a list, \<open>convert\<close> applied to \<open>toDynamoDBFormat\<close> of it
  reproduces it up to the number-to-string-to-number round trip, whatever \<open>String\<close>
  prints: the result is the object with the same strings, booleans, keys and lists, with a
  number in the place of each number, and with the same number wherever that number is
  read back from its string form. The integers of magnitude below \<open>2 ^ 53\<close>, which
  \<open>String\<close> prints as their decimal digits, are reproduced exactly, and so is an object
  that has no other numbers.
\<close>

theorem decode_encode_plain:
  assumes "plain_fields fs"
  shows "(\<exists>v. convert_analytics (toDynamoDBFormat String (JObj fs)) = Inr v \<and>
              same_up_to_numbers (\<lambda>n. string_to_number (String n) = n) (JObj fs) v) \<and>
         (all_numbers (\<lambda>n. string_to_number (String n) = n) (JObj fs) \<longrightarrow>
            convert_analytics (toDynamoDBFormat String (JObj fs)) = Inr (JObj fs)) \<and>
         ((\<forall>i. \<bar>i\<bar> < 2 ^ 53 \<longrightarrow> String (Fin (of_int i)) = int_to_string i) \<longrightarrow>
            (\<exists>v. convert_analytics (toDynamoDBFormat String (JObj fs)) = Inr v \<and>
                  same_up_to_numbers safe_integer (JObj fs) v) \<and>
            (all_numbers safe_integer (JObj fs) \<longrightarrow>
               convert_analytics (toDynamoDBFormat String (JObj fs)) = Inr (JObj fs)))"
proof -
  let ?r = "convert_analytics (toDynamoDBFormat String (JObj fs))"
  have s: "(\<lambda>n. string_to_number (String n) = n) = survives String"
    by (simp add: survives_def fun_eq_iff)
  have r: "?r = Inr (renumber String (JObj fs))"
    using assms by (rule roundtrip_object)
  have a: "\<exists>v. ?r = Inr v \<and> same_up_to_numbers (survives String) (JObj fs) v"
    using r renumber_same(1)[of String "JObj fs"] by blast
  have b: "?r = Inr (JObj fs)" if "all_numbers (survives String) (JObj fs)"
    using r that renumber_survives(1)[of String "JObj fs"] by simp
  have c: "(\<exists>v. ?r = Inr v \<and> same_up_to_numbers safe_integer (JObj fs) v) \<and>
           (all_numbers safe_integer (JObj fs) \<longrightarrow> ?r = Inr (JObj fs))"
    if "\<forall>i. \<bar>i\<bar> < 2 ^ 53 \<longrightarrow> String (Fin (of_int i)) = int_to_string i"
  proof -
    have "prints_integers String" using that by (simp add: prints_integers_def)
    then have sv: "\<And>n. safe_integer n \<Longrightarrow> survives String n" by (rule safe_integer_survives)
    obtain v where v: "?r = Inr v" "same_up_to_numbers (survives String) (JObj fs) v"
      using a by blast
    have "same_up_to_numbers safe_integer (JObj fs) v"
      using same_mono(1)[of safe_integer "survives String" "JObj fs" v] sv v(2) by blast
    moreover have "?r = Inr (JObj fs)" if "all_numbers safe_integer (JObj fs)"
      using all_numbers_mono(1)[of safe_integer "survives String" "JObj fs"] sv that b by blast
    ultimately show ?thesis using v(1) by blast
  qed
  show ?thesis unfolding s using a b c by blast
qed

lemma decimal_text_small:
  "decimal_text (Fin 0) = [48]" "decimal_text (Fin 1) = [49]"
  by (simp_all add: decimal_text_def int_to_string_def nat_to_string_small digit_char_def)

lemma summary_record_plain:
  "plain_fields summary_record \<and> all_numbers safe_integer (JObj summary_record)"
  by (simp add: summary_record_def is_tag_def reserved_key_def js_def safe_integer_def)

theorem decode_encode_plain_witness:
  "plain_fields summary_record \<and>
   all_numbers (\<lambda>n. string_to_number (decimal_text n) = n) (JObj summary_record) \<and>
   prints_integers decimal_text \<and>
   all_numbers safe_integer (JObj summary_record) \<and>
   same_up_to_numbers safe_integer (JObj summary_record) (JObj summary_record) \<and>
   convert_analytics (toDynamoDBFormat decimal_text (JObj summary_record)) =
     Inr (JObj summary_record)"
proof -
  have p: "plain_fields summary_record" and e: "all_numbers safe_integer (JObj summary_record)"
    using summary_record_plain by blast+
  have d: "prints_integers decimal_text"
    by (simp add: prints_integers_def decimal_text_int)
  then have "\<And>n. safe_integer n \<Longrightarrow> survives decimal_text n"
    by (rule safe_integer_survives)
  then have "all_numbers (survives decimal_text) (JObj summary_record)"
    using all_numbers_mono(1)[of safe_integer "survives decimal_text" "JObj summary_record"] e
    by blast
  moreover have "survives decimal_text = (\<lambda>n. string_to_number (decimal_text n) = n)"
    by (simp add: survives_def fun_eq_iff)
  ultimately have s: "all_numbers (\<lambda>n. string_to_number (decimal_text n) = n) (JObj summary_record)"
    by simp
  have i: "\<forall>i. \<bar>i\<bar> < 2 ^ 53 \<longrightarrow> decimal_text (Fin (of_int i)) = int_to_string i"
    using d by (simp add: prints_integers_def)
  from decode_encode_plain[OF p, of decimal_text] i e
  have r: "convert_analytics (toDynamoDBFormat decimal_text (JObj summary_record)) =
          Inr (JObj summary_record)"
    by blast
  from decode_encode_plain[OF p, of decimal_text] i
  obtain v where "convert_analytics (toDynamoDBFormat decimal_text (JObj summary_record)) = Inr v"
    "same_up_to_numbers safe_integer (JObj summary_record) v"
    by blast
  with r have m: "same_up_to_numbers safe_integer (JObj summary_record) (JObj summary_record)"
    by simp
  from p s d e m r show ?thesis by blast
qed

theorem decode_encode_counterexample:
  "all_numbers safe_integer tag_named_key \<and>
   convert_analytics (toDynamoDBFormat decimal_text tag_named_key) =
     Inr (JObj [(js ''N'', JStr (js ''1''))]) \<and>
   tag_named_key \<noteq> JObj [(js ''N'', JStr (js ''1''))] \<and>
   \<not> same_up_to_numbers safe_integer tag_named_key (JObj [(js ''N'', JStr (js ''1''))])"
  by (simp add: tag_named_key_def codec_eval decimal_text_small safe_integer_def)

lemma nested_list_becomes_object:
  "convert_analytics
     (toDynamoDBFormat decimal_text (JObj [(js ''rows'', JArr [JArr [JStr (js ''a'')]])])) =
     Inr (JObj [(js ''rows'', JArr [JObj [(js ''0'', JStr (js ''a''))]])])"
  by (simp add: codec_eval nat_to_string_small digit_char_def)

lemma top_level_list_becomes_object:
  "convert_analytics (toDynamoDBFormat decimal_text (JArr [JStr (js ''a'')])) =
     Inr (JObj [(js ''0'', JStr (js ''a''))])"
  by (simp add: codec_eval nat_to_string_small digit_char_def)

lemma string_to_number_25: "string_to_number (js ''25'') = Fin 25"
  by (simp add: string_to_number_def js_def trim_def is_space_def parse_radix_def
      parse_unsigned_decimal_def is_digit_def parse_exponent_def digits_value_def
      digit_value_def scale10_def)

text \<open>
  Claim C10. The claim is that the two \<open>convert\<close> functions agree on every wire-format
  input. They do not: on a list attribute the \<open>convert\<close> of the batch scripts passes each
  element, a typed wrapper, to itself, which reads it as a map of attributes and returns
  it still wrapped, while the \<open>convert\<close> of the analytics script unwraps it.
\<close>

theorem convert_differs_on_lists:
  "convert_batch list_item =
     Inr (JObj [(js ''highlightedAreaOfAIUse'',
                 JArr [JObj [(js ''S'', JStr (js ''10''))],
                       JObj [(js ''M'', JObj [(js ''line'', JObj [(js ''N'', JStr (js ''25''))])])]])]) \<and>
   convert_analytics list_item =
     Inr (JObj [(js ''highlightedAreaOfAIUse'',
                 JArr [JStr (js ''10''), JObj [(js ''line'', JNum (Fin 25))]])])"
proof -
  have n: "string_to_number [50, 53] = Fin 25" using string_to_number_25 by (simp add: js_def)
  show ?thesis by (simp add: list_item_def codec_eval n)
qed

section \<open>Properties of the invoker\<close>

declare invoke_from.simps [simp del]

lemma invoke_from_success:
  "attempt \<le> MAX_RETRIES \<Longrightarrow> attempt_once env req st = (Inr parsed, st1) \<Longrightarrow>
   invoke_from env req attempt st = (Inr parsed, st1)"
  by (subst invoke_from.simps) simp

lemma invoke_from_retry:
  "attempt < MAX_RETRIES \<Longrightarrow> attempt_once env req st = (Inl e, st1) \<Longrightarrow> retryable e \<Longrightarrow>
   following = attempt + 1 \<Longrightarrow> delay = 1000 * attempt \<Longrightarrow>
   invoke_from env req attempt st =
     invoke_from env req following (st1\<lparr>sleeps := sleeps st1 @ [delay]\<rparr>)"
  by (subst invoke_from.simps) simp

lemma invoke_from_fail:
  "attempt < MAX_RETRIES \<Longrightarrow> attempt_once env req st = (Inl e, st1) \<Longrightarrow> \<not> retryable e \<Longrightarrow>
   invoke_from env req attempt st = (Inl e, st1)"
  by (subst invoke_from.simps) simp

lemma invoke_from_last:
  "attempt_once env req st = (Inl e, st1) \<Longrightarrow>
   invoke_from env req MAX_RETRIES st = (Inl (exhausted e), st1)"
  by (subst invoke_from.simps) simp

lemma attempt_once_rejected:
  "axios_post env (requests st) req = Rejected e \<Longrightarrow>
   attempt_once env req st = (Inl e, st\<lparr>requests := requests st + 1\<rparr>)"
  by (simp add: attempt_once_def)

lemma attempt_once_resolved:
  "axios_post env (requests st) req = Resolved code raw \<Longrightarrow> code < 400 \<Longrightarrow> raw \<noteq> JUndefined \<Longrightarrow>
   attempt_once env req st = (parse_response env raw, st\<lparr>requests := requests st + 1\<rparr>)"
  by (simp add: attempt_once_def)

lemma nat_to_string_3: "nat_to_string 3 = js ''3''"
  by (simp add: nat_to_string_small digit_char_def js_def)

lemma exhausted_message:
  "err_message (exhausted e) = js ''Lambda invocation failed after 3 attempts: '' @ err_message e"
  by (simp add: exhausted_def new_Error_def MAX_RETRIES_def nat_to_string_3 js_def)

text \<open>
  Claim C1. When every attempt is answered with HTTP 502, \<open>invokeModelEndpoint\<close> makes
  exactly \<open>MAX_RETRIES\<close> = 3 requests, sleeps 1000 ms and then 2000 ms between them, and
  fails with an error whose message gives the attempt count and the message of the last
  underlying error.
\<close>

theorem retry_on_502:
  assumes "req = \<lparr>req_text = safeText assignmentText, req_assignmentId = ident,
                  req_analyticsId = analyticsId\<rparr>"
    and "axios_post env (requests st) req = Rejected e1" "err_status e1 = Some 502"
    and "axios_post env (requests st + 1) req = Rejected e2" "err_status e2 = Some 502"
    and "axios_post env (requests st + 2) req = Rejected e3" "err_status e3 = Some 502"
  shows "invokeModelEndpoint env assignmentText ident analyticsId st =
           (Inl (exhausted e3),
            st\<lparr>requests := requests st + 3, sleeps := sleeps st @ [1000, 2000]\<rparr>) \<and>
         MAX_RETRIES = 3 \<and>
         err_message (exhausted e3) =
           js ''Lambda invocation failed after 3 attempts: '' @ err_message e3"
proof -
  let ?a1 = "st\<lparr>requests := requests st + 1\<rparr>"
  let ?s1 = "?a1\<lparr>sleeps := sleeps ?a1 @ [1000]\<rparr>"
  let ?a2 = "?s1\<lparr>requests := requests ?s1 + 1\<rparr>"
  let ?s2 = "?a2\<lparr>sleeps := sleeps ?a2 @ [2000]\<rparr>"
  let ?a3 = "?s2\<lparr>requests := requests ?s2 + 1\<rparr>"
  have r: "retryable e1" "retryable e2" using assms by (simp_all add: retryable_def)
  have t1: "attempt_once env req st = (Inl e1, ?a1)"
    using assms(2) by (rule attempt_once_rejected)
  have 1: "invoke_from env req 1 st = invoke_from env req 2 ?s1"
    by (rule invoke_from_retry[OF _ t1 r(1)]) (simp_all add: MAX_RETRIES_def)
  have "axios_post env (requests ?s1) req = Rejected e2" using assms(4) by simp
  then have t2: "attempt_once env req ?s1 = (Inl e2, ?a2)"
    by (rule attempt_once_rejected)
  have 2: "invoke_from env req 2 ?s1 = invoke_from env req 3 ?s2"
    by (rule invoke_from_retry[OF _ t2 r(2)]) (simp_all add: MAX_RETRIES_def)
  have "axios_post env (requests ?s2) req = Rejected e3" using assms(6) by simp
  then have t3: "attempt_once env req ?s2 = (Inl e3, ?a3)"
    by (rule attempt_once_rejected)
  have 3: "invoke_from env req MAX_RETRIES ?s2 = (Inl (exhausted e3), ?a3)"
    using t3 by (rule invoke_from_last)
  have m: "MAX_RETRIES = 3" by (simp add: MAX_RETRIES_def)
  have fin: "?a3 = st\<lparr>requests := requests st + 3, sleeps := sleeps st @ [1000, 2000]\<rparr>"
    by simp
  have "invokeModelEndpoint env assignmentText ident analyticsId st = invoke_from env req 1 st"
    using assms(1) by (simp only: invokeModelEndpoint_def)
  also have "\<dots> = (Inl (exhausted e3), ?a3)"
    using 1 2 3 by (simp only: m)
  finally show ?thesis using m by (simp only: fin exhausted_message simp_thms)
qed

lemma plain_not_retryable: "plain_error e \<Longrightarrow> \<not> retryable e"
  by (simp add: plain_error_def retryable_def)

lemma plain_error_constructors:
  "plain_error (new_Error m)" "plain_error (TypeError m)" "plain_error (SyntaxError m)"
  "plain_error (cannot_read b k)" "plain_error (unknown_format env r)"
  by (simp_all add: plain_error_def new_Error_def TypeError_def SyntaxError_def cannot_read_def
      unknown_format_def)

lemma get_prop_plain: "get_prop v k = Inl e \<Longrightarrow> plain_error e"
  by (cases v) (auto simp: get_prop_def plain_error_constructors)

lemma to_string_plain:
  "to_string String v = Inl e \<Longrightarrow> e = cannot_convert"
  "join_elements String xs = Inl e \<Longrightarrow> e = cannot_convert"
  by (induction String v and String xs arbitrary: e and e
      rule: to_string_join_elements.induct)
     (auto split: if_splits sum.splits)

lemma JSON_parse_plain: "JSON_parse env v = Inl e \<Longrightarrow> plain_error e"
  by (auto simp: JSON_parse_def plain_error_constructors cannot_convert_def
      split: sum.splits dest: to_string_plain(1))

lemma is_dynamodb_format_plain: "is_dynamodb_format r = Inl e \<Longrightarrow> plain_error e"
  by (auto simp: is_dynamodb_format_def split: sum.splits if_splits dest: get_prop_plain)

lemma generated_text_plain: "generated_text r = Inl e \<Longrightarrow> plain_error e"
  by (auto simp: generated_text_def split: jsval.splits list.splits sum.splits dest: get_prop_plain)

lemma parse_response_plain:
  assumes "parse_response env raw = Inl e"
  shows "plain_error e"
proof -
  let ?first = "case raw of JStr s \<Rightarrow> JSON_parse env raw | _ \<Rightarrow> Inr raw"
  show ?thesis
  proof (cases ?first)
    case (Inl e0)
    then have "e0 = e" using assms by (simp add: parse_response_def)
    moreover have "JSON_parse env raw = Inl e0" using Inl by (cases raw) simp_all
    ultimately show ?thesis using JSON_parse_plain by blast
  next
    case (Inr result)
    show ?thesis
    proof (cases "is_dynamodb_format result")
      case (Inl e1)
      then have "e1 = e" using assms Inr by (simp add: parse_response_def)
      then show ?thesis using Inl is_dynamodb_format_plain by blast
    next
      case f: (Inr b)
      then have nb: "\<not> b" using assms Inr by (auto simp: parse_response_def)
      show ?thesis
      proof (cases "generated_text result")
        case (Inl e2)
        then have "e2 = e" using assms Inr f nb by (simp add: parse_response_def)
        then show ?thesis using Inl generated_text_plain by blast
      next
        case g: (Inr og)
        show ?thesis
        proof (cases og)
          case None
          then have "e = unknown_format env result"
            using assms Inr f nb g by (simp add: parse_response_def)
          then show ?thesis by (simp add: plain_error_constructors)
        next
          case (Some t)
          then have "JSON_parse env t = Inl e"
            using assms Inr f nb g by (simp add: parse_response_def)
          then show ?thesis by (rule JSON_parse_plain)
        qed
      qed
    qed
  qed
qed

lemma invoke_from_no_retry:
  assumes "attempt \<le> MAX_RETRIES" "attempt_once env req st = (Inl e, st1)" "\<not> retryable e"
  shows "invoke_from env req attempt st =
           (Inl (if attempt = MAX_RETRIES then exhausted e else e), st1)"
proof (cases "attempt = MAX_RETRIES")
  case True
  then show ?thesis using invoke_from_last[OF assms(2)] by simp
next
  case False
  then have "attempt < MAX_RETRIES" using assms(1) by simp
  then show ?thesis using invoke_from_fail[OF _ assms(2,3)] False by simp
qed

lemma parse_response_malformed:
  "json_parse env s = Inl msg \<Longrightarrow> parse_response env (JStr s) = Inl (SyntaxError msg)"
  by (simp add: parse_response_def JSON_parse_def)

lemma parse_response_unrecognized:
  assumes "is_dynamodb_format result = Inr False" "generated_text result = Inr None"
    and "\<forall>s. result \<noteq> JStr s"
  shows "parse_response env result = Inl (unknown_format env result)"
  using assms by (cases result) (simp_all add: parse_response_def)

text \<open>
  Claim C2. A first attempt that is answered with HTTP 404, or whose body cannot be
  parsed or has neither known shape, ends the call: \<open>invokeModelEndpoint\<close> fails with that
  error after one request and no delay. A malformed JSON text gives the SyntaxError, a
  body of neither shape the unknown-format error. The same holds at any later attempt,
  where the last attempt wraps the error.
\<close>

theorem no_retry_on_404_or_bad_body:
  assumes "req = \<lparr>req_text = safeText assignmentText, req_assignmentId = ident,
                  req_analyticsId = analyticsId\<rparr>"
  shows "(axios_post env (requests st) req = Rejected e \<and> err_status e = Some 404 \<and>
            err_code e \<noteq> Some (js ''ECONNABORTED'') \<longrightarrow>
          invokeModelEndpoint env assignmentText ident analyticsId st =
            (Inl e, st\<lparr>requests := requests st + 1\<rparr>)) \<and>
         (axios_post env (requests st) req = Resolved code raw \<and> code < 400 \<and>
            raw \<noteq> JUndefined \<and> parse_response env raw = Inl e \<longrightarrow>
          invokeModelEndpoint env assignmentText ident analyticsId st =
            (Inl e, st\<lparr>requests := requests st + 1\<rparr>)) \<and>
         (json_parse env s = Inl msg \<longrightarrow> parse_response env (JStr s) = Inl (SyntaxError msg)) \<and>
         (is_dynamodb_format result = Inr False \<and> generated_text result = Inr None \<and>
            (\<forall>t. result \<noteq> JStr t) \<longrightarrow>
          parse_response env result = Inl (unknown_format env result)) \<and>
         (attempt \<le> MAX_RETRIES \<and> attempt_once env req st = (Inl e, st1) \<and> \<not> retryable e \<longrightarrow>
          invoke_from env req attempt st =
            (Inl (if attempt = MAX_RETRIES then exhausted e else e), st1))"
proof -
  have m: "(1::nat) \<le> MAX_RETRIES" "(1::nat) \<noteq> MAX_RETRIES" by (simp_all add: MAX_RETRIES_def)
  have first: "invokeModelEndpoint env assignmentText ident analyticsId st = (Inl e, st1)"
    if "attempt_once env req st = (Inl e, st1)" "\<not> retryable e" for st1
    using invoke_from_no_retry[OF m(1) that] m(2) assms
    by (simp only: invokeModelEndpoint_def if_False)
  have a: "invokeModelEndpoint env assignmentText ident analyticsId st =
             (Inl e, st\<lparr>requests := requests st + 1\<rparr>)"
    if "axios_post env (requests st) req = Rejected e" "err_status e = Some 404"
      "err_code e \<noteq> Some (js ''ECONNABORTED'')"
    using that by (intro first attempt_once_rejected) (simp_all add: retryable_def)
  have b: "invokeModelEndpoint env assignmentText ident analyticsId st =
             (Inl e, st\<lparr>requests := requests st + 1\<rparr>)"
    if "axios_post env (requests st) req = Resolved code raw" "code < 400" "raw \<noteq> JUndefined"
      "parse_response env raw = Inl e"
  proof (rule first)
    show "attempt_once env req st = (Inl e, st\<lparr>requests := requests st + 1\<rparr>)"
      using attempt_once_resolved[OF that(1,2,3)] that(4) by simp
    show "\<not> retryable e"
      using that(4) by (intro plain_not_retryable parse_response_plain)
  qed
  show ?thesis
    using a b parse_response_malformed parse_response_unrecognized invoke_from_no_retry
    by blast
qed


lemma base_env_fields:
  "axios_post base_env = (\<lambda>n r. Rejected bad_gateway)"
  "json_parse base_env = (\<lambda>s. Inl (js ''Unexpected token''))"
  "json_stringify base_env = (\<lambda>v. js ''[..]'')"
  "put_item base_env = (\<lambda>n v. None)"
  by (simp_all add: base_env_def)

theorem retry_on_502_witness:
  "invokeModelEndpoint base_env (js ''hello world'') (js ''7'') (Fin 1) world0 =
     (Inl (exhausted bad_gateway), \<lparr>requests = 3, sleeps = [1000, 2000], puts = 0\<rparr>) \<and>
   err_status bad_gateway = Some 502 \<and>
   err_message (exhausted bad_gateway) =
     js ''Lambda invocation failed after 3 attempts: '' @ js ''Request failed with status code 502''"
proof -
  let ?req = "\<lparr>req_text = safeText (js ''hello world''), req_assignmentId = js ''7'',
               req_analyticsId = Fin 1\<rparr>"
  have p: "axios_post base_env n ?req = Rejected bad_gateway" for n
    by (simp add: base_env_fields)
  have s: "err_status bad_gateway = Some 502" by (simp add: bad_gateway_def)
  have m: "err_message bad_gateway = js ''Request failed with status code 502''"
    by (simp add: bad_gateway_def)
  have w: "world0\<lparr>requests := requests world0 + 3, sleeps := sleeps world0 @ [1000, 2000]\<rparr> =
           \<lparr>requests = 3, sleeps = [1000, 2000], puts = 0\<rparr>"
    by (simp add: world0_def)
  from retry_on_502[OF refl p s p s p s, of world0] show ?thesis
    by (simp only: w s m simp_thms)
qed

theorem no_retry_on_404_or_bad_body_witness:
  "invokeModelEndpoint (base_env\<lparr>axios_post := \<lambda>n r. Rejected not_found\<rparr>)
     (js ''hello world'') (js ''7'') (Fin 1) world0 =
     (Inl not_found, \<lparr>requests = 1, sleeps = [], puts = 0\<rparr>) \<and>
   invokeModelEndpoint (base_env\<lparr>axios_post := \<lambda>n r. Resolved 200 (JStr (js ''<html>''))\<rparr>)
     (js ''hello world'') (js ''7'') (Fin 1) world0 =
     (Inl (SyntaxError (js ''Unexpected token'')), \<lparr>requests = 1, sleeps = [], puts = 0\<rparr>) \<and>
   invokeModelEndpoint (base_env\<lparr>axios_post := \<lambda>n r. Resolved 200 error_body\<rparr>)
     (js ''hello world'') (js ''7'') (Fin 1) world0 =
     (Inl (unknown_format base_env error_body), \<lparr>requests = 1, sleeps = [], puts = 0\<rparr>)"
proof -
  let ?req = "\<lparr>req_text = safeText (js ''hello world''), req_assignmentId = js ''7'',
               req_analyticsId = Fin 1\<rparr>"
  let ?e404 = "base_env\<lparr>axios_post := \<lambda>n r. Rejected not_found\<rparr>"
  let ?ehtml = "base_env\<lparr>axios_post := \<lambda>n r. Resolved 200 (JStr (js ''<html>''))\<rparr>"
  let ?eunk = "base_env\<lparr>axios_post := \<lambda>n r. Resolved 200 error_body\<rparr>"
  have w: "world0\<lparr>requests := requests world0 + 1\<rparr> = \<lparr>requests = 1, sleeps = [], puts = 0\<rparr>"
    by (simp add: world0_def)
  have nf: "err_status not_found = Some 404" "err_code not_found \<noteq> Some (js ''ECONNABORTED'')"
    by (simp_all add: not_found_def js_def)
  have p1: "axios_post ?e404 (requests world0) ?req = Rejected not_found \<and>
            err_status not_found = Some 404 \<and> err_code not_found \<noteq> Some (js ''ECONNABORTED'')"
    using nf by simp
  have "invokeModelEndpoint ?e404 (js ''hello world'') (js ''7'') (Fin 1) world0 =
          (Inl not_found, world0\<lparr>requests := requests world0 + 1\<rparr>)"
    using no_retry_on_404_or_bad_body[OF refl, of ?e404 world0 "js ''hello world''" "js ''7''"
        "Fin 1" not_found] p1 by blast
  then have 1: "invokeModelEndpoint ?e404 (js ''hello world'') (js ''7'') (Fin 1) world0 =
             (Inl not_found, \<lparr>requests = 1, sleeps = [], puts = 0\<rparr>)"
    by (simp only: w)
  have "json_parse ?ehtml (js ''<html>'') = Inl (js ''Unexpected token'')"
    by (simp add: base_env_fields)
  then have ph: "parse_response ?ehtml (JStr (js ''<html>'')) = Inl (SyntaxError (js ''Unexpected token''))"
    using no_retry_on_404_or_bad_body[OF refl, of ?ehtml world0 "js ''hello world''" "js ''7''"
        "Fin 1" _ _ _ "js ''<html>''" "js ''Unexpected token''"]
    by blast
  have p2: "axios_post ?ehtml (requests world0) ?req = Resolved 200 (JStr (js ''<html>'')) \<and>
            (200::nat) < 400 \<and> JStr (js ''<html>'') \<noteq> JUndefined"
    by simp
  have "invokeModelEndpoint ?ehtml (js ''hello world'') (js ''7'') (Fin 1) world0 =
          (Inl (SyntaxError (js ''Unexpected token'')), world0\<lparr>requests := requests world0 + 1\<rparr>)"
    using no_retry_on_404_or_bad_body[OF refl, of ?ehtml world0 "js ''hello world''" "js ''7''"
        "Fin 1" "SyntaxError (js ''Unexpected token'')" 200 "JStr (js ''<html>'')"] p2 ph
    by blast
  then have 2: "invokeModelEndpoint ?ehtml (js ''hello world'') (js ''7'') (Fin 1) world0 =
             (Inl (SyntaxError (js ''Unexpected token'')), \<lparr>requests = 1, sleeps = [], puts = 0\<rparr>)"
    by (simp only: w)
  have shape: "is_dynamodb_format error_body = Inr False" "generated_text error_body = Inr None"
    "\<forall>t. error_body \<noteq> JStr t"
    by (simp_all add: error_body_def is_dynamodb_format_def generated_text_def get_prop_def
        js_def truthy_def)
  have pu: "parse_response ?eunk error_body = Inl (unknown_format ?eunk error_body)"
    using no_retry_on_404_or_bad_body[OF refl, of ?eunk world0 "js ''hello world''" "js ''7''"
        "Fin 1" _ _ _ _ _ error_body] shape
    by blast
  have uf: "unknown_format ?eunk error_body = unknown_format base_env error_body"
    by (simp add: unknown_format_def)
  have p3: "axios_post ?eunk (requests world0) ?req = Resolved 200 error_body \<and>
            (200::nat) < 400 \<and> error_body \<noteq> JUndefined"
    by (simp add: error_body_def)
  have "invokeModelEndpoint ?eunk (js ''hello world'') (js ''7'') (Fin 1) world0 =
          (Inl (unknown_format ?eunk error_body), world0\<lparr>requests := requests world0 + 1\<rparr>)"
    using no_retry_on_404_or_bad_body[OF refl, of ?eunk world0 "js ''hello world''" "js ''7''"
        "Fin 1" "unknown_format ?eunk error_body" 200 error_body] p3 pu
    by blast
  then have 3: "invokeModelEndpoint ?eunk (js ''hello world'') (js ''7'') (Fin 1) world0 =
             (Inl (unknown_format base_env error_body), \<lparr>requests = 1, sleeps = [], puts = 0\<rparr>)"
    by (simp only: w uf)
  show ?thesis using 1 2 3 by blast
qed


lemma parse_response_canonical:
  assumes "is_dynamodb_format B = Inr True"
  shows "parse_response env B = Inr B" and "B \<noteq> JUndefined"
proof -
  show u: "B \<noteq> JUndefined"
    using assms by (auto simp: is_dynamodb_format_def get_prop_def)
  have "\<forall>t. B \<noteq> JStr t"
    using assms by (auto simp: is_dynamodb_format_def get_prop_def truthy_def js_def)
  then show "parse_response env B = Inr B"
    using assms by (cases B) (simp_all add: parse_response_def)
qed

lemma parse_response_legacy:
  assumes "json_parse env s = Inr B" "s \<noteq> []"
  shows "parse_response env (JArr [JObj [(js ''generated_text'', JStr s)]]) = Inr B"
proof -
  let ?raw = "JArr [JObj [(js ''generated_text'', JStr s)]]"
  have 1: "is_dynamodb_format ?raw = Inr False"
    by (simp add: is_dynamodb_format_def get_prop_def js_def truthy_def)
  have 2: "generated_text ?raw = Inr (Some (JStr s))"
    using assms(2) by (simp add: generated_text_def get_prop_def truthy_def)
  have 3: "JSON_parse env (JStr s) = Inr B"
    using assms(1) by (simp add: JSON_parse_def)
  show ?thesis by (simp add: parse_response_def 1 2 3)
qed

text \<open>
  Claim C3. Let \<open>B\<close> be a canonical body, one that the test for the DynamoDB format
  accepts, and \<open>s\<close> a JSON text of it (\<open>JSON.parse\<close> of \<open>s\<close> is \<open>B\<close>; a JSON text is not
  empty). When the endpoint answers with the legacy body \<open>[{ "generated_text": s }]\<close>,
  \<open>invokeModelEndpoint\<close> returns what it returns when the endpoint answers with \<open>B\<close>
  itself: \<open>B\<close>, after one request.
\<close>

theorem legacy_body_same_result:
  assumes "req = \<lparr>req_text = safeText assignmentText, req_assignmentId = ident,
                  req_analyticsId = analyticsId\<rparr>"
    and "is_dynamodb_format B = Inr True"
    and "json_parse env2 s = Inr B" "s \<noteq> []"
    and "axios_post env1 (requests st) req = Resolved c1 B" "c1 < 400"
    and "axios_post env2 (requests st) req =
           Resolved c2 (JArr [JObj [(js ''generated_text'', JStr s)]])" "c2 < 400"
  shows "invokeModelEndpoint env2 assignmentText ident analyticsId st =
           invokeModelEndpoint env1 assignmentText ident analyticsId st \<and>
         invokeModelEndpoint env1 assignmentText ident analyticsId st =
           (Inr B, st\<lparr>requests := requests st + 1\<rparr>)"
proof -
  let ?st1 = "st\<lparr>requests := requests st + 1\<rparr>"
  have m: "(1::nat) \<le> MAX_RETRIES" by (simp add: MAX_RETRIES_def)
  have "attempt_once env1 req st = (parse_response env1 B, ?st1)"
    using assms(5,6) parse_response_canonical(2)[OF assms(2)] by (rule attempt_once_resolved)
  then have "attempt_once env1 req st = (Inr B, ?st1)"
    by (simp only: parse_response_canonical(1)[OF assms(2)])
  then have d: "invoke_from env1 req 1 st = (Inr B, ?st1)"
    by (rule invoke_from_success[OF m])
  have "attempt_once env2 req st =
          (parse_response env2 (JArr [JObj [(js ''generated_text'', JStr s)]]), ?st1)"
    using assms(7,8) by (rule attempt_once_resolved) simp
  then have "attempt_once env2 req st = (Inr B, ?st1)"
    by (simp only: parse_response_legacy[OF assms(3,4)])
  then have l: "invoke_from env2 req 1 st = (Inr B, ?st1)"
    by (rule invoke_from_success[OF m])
  show ?thesis using d l assms(1) by (simp only: invokeModelEndpoint_def simp_thms)
qed

lemma small_body_canonical: "is_dynamodb_format small_body = Inr True"
  by (simp add: small_body_def is_dynamodb_format_def get_prop_def js_def truthy_def wrap_def)

theorem legacy_body_same_result_witness:
  "invokeModelEndpoint
     (json_env\<lparr>axios_post :=
        \<lambda>n r. Resolved 200 (JArr [JObj [(js ''generated_text'', JStr small_body_json)]])\<rparr>)
     (js ''hello world'') (js ''7'') (Fin 1) world0 =
   invokeModelEndpoint (json_env\<lparr>axios_post := \<lambda>n r. Resolved 200 small_body\<rparr>)
     (js ''hello world'') (js ''7'') (Fin 1) world0 \<and>
   invokeModelEndpoint (json_env\<lparr>axios_post := \<lambda>n r. Resolved 200 small_body\<rparr>)
     (js ''hello world'') (js ''7'') (Fin 1) world0 =
     (Inr small_body, \<lparr>requests = 1, sleeps = [], puts = 0\<rparr>) \<and>
   is_dynamodb_format small_body = Inr True"
proof -
  let ?legacy = "json_env\<lparr>axios_post :=
        \<lambda>n r. Resolved 200 (JArr [JObj [(js ''generated_text'', JStr small_body_json)]])\<rparr>"
  let ?direct = "json_env\<lparr>axios_post := \<lambda>n r. Resolved 200 small_body\<rparr>"
  have w: "world0\<lparr>requests := requests world0 + 1\<rparr> = \<lparr>requests = 1, sleeps = [], puts = 0\<rparr>"
    by (simp add: world0_def)
  have j: "json_parse ?legacy small_body_json = Inr small_body"
    by (simp add: json_env_def)
  have ne: "small_body_json \<noteq> []" by (simp add: small_body_json_def js_def)
  have c: "(200::nat) < 400" by simp
  have d: "axios_post ?direct (requests world0)
             \<lparr>req_text = safeText (js ''hello world''), req_assignmentId = js ''7'',
              req_analyticsId = Fin 1\<rparr> = Resolved 200 small_body"
    by simp
  have l: "axios_post ?legacy (requests world0)
             \<lparr>req_text = safeText (js ''hello world''), req_assignmentId = js ''7'',
              req_analyticsId = Fin 1\<rparr> =
           Resolved 200 (JArr [JObj [(js ''generated_text'', JStr small_body_json)]])"
    by simp
  from legacy_body_same_result[OF refl small_body_canonical j ne d c l c]
  show ?thesis using small_body_canonical by (simp only: w simp_thms)
qed

section \<open>Properties of the batch orchestrator\<close>

lemma txt_literal: "js ''.txt'' = [46, 116, 120, 116]"
  by (simp add: js_def)

lemma ends_with_txt_split:
  assumes "ends_with f (js ''.txt'')"
  shows "\<exists>g. f = g @ [46, 116, 120, 116]"
proof -
  let ?n = "length f - length (js ''.txt'')"
  have "f = take ?n f @ drop ?n f" by simp
  moreover have "drop ?n f = [46, 116, 120, 116]"
    using assms unfolding ends_with_def by (simp only: txt_literal)
  ultimately show ?thesis by metis
qed

lemma extname_txt:
  assumes "ends_with f (js ''.txt'')" "f \<noteq> js ''.txt''"
  shows "extname f = js ''.txt''"
proof -
  obtain g where f: "f = g @ [46, 116, 120, 116]"
    using ends_with_txt_split[OF assms(1)] by blast
  have g: "g \<noteq> []" using assms(2) f by (auto simp: txt_literal)
  have tw: "takeWhile (\<lambda>c. c \<noteq> 46) (rev f) = [116, 120, 116 :: jschar]"
    by (simp add: f)
  have len: "length f - length [116, 120, 116 :: jschar] - 1 = length g"
    by (simp add: f)
  have dot: "46 \<in> set f" by (simp add: f)
  have two: "f \<noteq> [46, 46]" by (simp add: f)
  have "extname f = drop (length g) f"
    using g dot two unfolding extname_def tw len Let_def by simp
  then show ?thesis by (simp add: f txt_literal)
qed

lemma dot_txt_not_numeric: "string_to_number (js ''.txt'') = NaN"
  by (simp add: string_to_number_def js_def trim_def is_space_def parse_radix_def
      parse_unsigned_decimal_def is_digit_def parse_exponent_def)

lemma extname_dot_txt: "extname (js ''.txt'') = []"
  by (simp add: extname_def js_def)

lemma derived_id_numeric:
  assumes "ends_with f (js ''.txt'')" "string_to_number (derived_id f) \<noteq> NaN"
  shows "derived_id f = doc_id f"
proof (cases "f = js ''.txt''")
  case True
  then have "derived_id f = js ''.txt''"
    by (simp add: derived_id_def extname_dot_txt) (simp add: js_def)
  then show ?thesis using assms(2) dot_txt_not_numeric by simp
next
  case False
  then show ?thesis using extname_txt[OF assms(1)] by (simp add: derived_id_def doc_id_def)
qed


lemma readAssignmentFromLocal_cases:
  "read_file env (full_path f) = Inl e \<Longrightarrow>
   readAssignmentFromLocal env f =
     Inl (new_Error (js ''Failed to read file '' @ full_path f @ js '': '' @ err_message e))"
  "read_file env (full_path f) = Inr t \<Longrightarrow> readAssignmentFromLocal env f = Inr (t, derived_id f)"
  by (simp_all add: readAssignmentFromLocal_def derived_id_def)

lemma save_and_report_id: "save_and_report env ident r w = (out, w1) \<Longrightarrow> assignmentId out = ident"
  by (auto simp: save_and_report_def split: prod.splits sum.splits)

lemma catch_file_thrown:
  "catch_file f (Inl e, w) = (Some (failed_with (doc_id f) (err_message e)), w)"
  by (simp add: catch_file_def failed_with_def doc_id_def)

lemma catch_file_returned: "catch_file f (Inr r, w) = (r, w)"
  by (simp add: catch_file_def)

lemma try_file_lambda_reports:
  assumes "ends_with f (js ''.txt'')"
  shows "reports_once env f (fst (catch_file f (try_file_lambda env maxId f w)))"
proof (cases "read_file env (full_path f)")
  case (Inl e)
  then show ?thesis
    by (simp add: try_file_lambda_def readAssignmentFromLocal_cases(1)[OF Inl] catch_file_thrown
        reports_once_def skipped_def failed_with_def)
next
  case (Inr t)
  note rd = readAssignmentFromLocal_cases(2)[OF Inr]
  show ?thesis
  proof (cases "string_to_number (derived_id f) = NaN")
    case True
    then show ?thesis
      by (simp add: try_file_lambda_def rd catch_file_returned reports_once_def skipped_def Inr)
  next
    case False
    then have id: "derived_id f = doc_id f" using derived_id_numeric[OF assms] by simp
    have ns: "\<not> skipped env f" using False by (simp add: skipped_def Inr)
    obtain res w1 where inv:
      "invokeModelEndpoint env t (derived_id f) (num_add maxId (Fin 1)) w = (res, w1)"
      by (cases "invokeModelEndpoint env t (derived_id f) (num_add maxId (Fin 1)) w")
    show ?thesis
    proof (cases res)
      case (Inl e)
      then show ?thesis using False ns
        by (simp add: try_file_lambda_def rd inv catch_file_thrown reports_once_def failed_with_def)
    next
      case (Inr r)
      obtain out w2 where sv: "save_and_report env (derived_id f) r w1 = (out, w2)"
        by (cases "save_and_report env (derived_id f) r w1")
      then have "assignmentId out = doc_id f" using save_and_report_id id by metis
      then show ?thesis using False ns Inr
        by (simp add: try_file_lambda_def rd inv sv catch_file_returned reports_once_def)
    qed
  qed
qed

lemma try_file_sagemaker_reports:
  assumes "ends_with f (js ''.txt'')"
  shows "reports_once env f (fst (catch_file f (try_file_sagemaker env maxId f w)))"
proof (cases "read_file env (full_path f)")
  case (Inl e)
  then show ?thesis
    by (simp add: try_file_sagemaker_def readAssignmentFromLocal_cases(1)[OF Inl] catch_file_thrown
        reports_once_def skipped_def failed_with_def)
next
  case (Inr t)
  note rd = readAssignmentFromLocal_cases(2)[OF Inr]
  show ?thesis
  proof (cases "string_to_number (derived_id f) = NaN")
    case True
    then show ?thesis
      by (simp add: try_file_sagemaker_def rd catch_file_returned reports_once_def skipped_def Inr)
  next
    case False
    then have id: "derived_id f = doc_id f" using derived_id_numeric[OF assms] by simp
    have ns: "\<not> skipped env f" using False by (simp add: skipped_def Inr)
    obtain res w1 where inv:
      "invokeModelEndpoint_sagemaker env t (derived_id f) maxId w = (res, w1)"
      by (cases "invokeModelEndpoint_sagemaker env t (derived_id f) maxId w")
    show ?thesis
    proof (cases res)
      case (Inl e)
      then show ?thesis using False ns
        by (simp add: try_file_sagemaker_def rd inv catch_file_thrown reports_once_def failed_with_def)
    next
      case r: (Inr r)
      show ?thesis
      proof (cases "validateDynamoDBStructure r")
        case (Inl e)
        then show ?thesis using False ns r
          by (simp add: try_file_sagemaker_def rd inv catch_file_thrown reports_once_def
              failed_with_def)
      next
        case (Inr ok)
        obtain out w2 where sv: "save_and_report env (derived_id f) r w1 = (out, w2)"
          by (cases "save_and_report env (derived_id f) r w1")
        then have "assignmentId out = doc_id f" using save_and_report_id id by metis
        then show ?thesis using False ns r Inr
          by (simp add: try_file_sagemaker_def rd inv sv catch_file_returned reports_once_def)
      qed
    qed
  qed
qed








text \<open>
  Claim C8, amended. The handlers test the id with \<open>isNaN(Number(assignmentId))\<close>. A
  document whose text loads and whose id \<open>Number\<close> turns into NaN is skipped silently: the
  pass of the loop adds no outcome and has no effect. A \<open>.txt\<close> document whose id \<open>Number\<close>
  does not turn into NaN adds exactly one outcome, whose id is the file name without its
  extension \<open>.txt\<close>; every id that is a base-10 integer is such an id, and so are ids like
  \<open>3.5\<close>, \<open>0x10\<close>, \<open>1e3\<close>, \<open>Infinity\<close> and a blank. A document that cannot be loaded
  adds a FAILED outcome whatever its name.
\<close>

theorem non_numeric_skipped:
  assumes "body = try_file_lambda env maxId \<or> body = try_file_sagemaker env maxId"
  shows "(read_file env (full_path f) = Inr t \<and> string_to_number (derived_id f) = NaN \<longrightarrow>
          process_files body (f # fs) w rs = process_files body fs w rs) \<and>
         (ends_with f (js ''.txt'') \<and> string_to_number (derived_id f) \<noteq> NaN \<longrightarrow>
          (\<exists>out w1. process_files body (f # fs) w rs = process_files body fs w1 (rs @ [out]) \<and>
             assignmentId out = derived_id f \<and> extname f = js ''.txt'' \<and>
             derived_id f = doc_id f)) \<and>
         (base10_integer (derived_id f) \<longrightarrow> string_to_number (derived_id f) \<noteq> NaN) \<and>
         (read_file env (full_path f) = Inl e \<longrightarrow>
          (\<exists>msg. process_files body (f # fs) w rs =
             process_files body fs w (rs @ [failed_with (doc_id f) msg])))"
proof -
  have skip: "process_files body (f # fs) w rs = process_files body fs w rs"
    if "read_file env (full_path f) = Inr t" "string_to_number (derived_id f) = NaN"
    using assms that readAssignmentFromLocal_cases(2)[OF that(1)]
    by (auto simp: try_file_lambda_def try_file_sagemaker_def catch_file_returned)
  have num: "\<exists>out w1. process_files body (f # fs) w rs = process_files body fs w1 (rs @ [out]) \<and>
               assignmentId out = derived_id f \<and> extname f = js ''.txt'' \<and> derived_id f = doc_id f"
    if e: "ends_with f (js ''.txt'')" and n: "string_to_number (derived_id f) \<noteq> NaN"
  proof -
    have id: "derived_id f = doc_id f" using derived_id_numeric[OF e n] .
    have "f \<noteq> js ''.txt''"
    proof
      assume "f = js ''.txt''"
      then have "derived_id f = js ''.txt''"
        by (simp add: derived_id_def extname_dot_txt) (simp add: js_def)
      then show False using n dot_txt_not_numeric by simp
    qed
    then have ext: "extname f = js ''.txt''" using extname_txt[OF e] by simp
    have ns: "\<not> skipped env f" using n by (auto simp: skipped_def split: sum.splits)
    obtain r w1 where c: "catch_file f (body f w) = (r, w1)"
      by (cases "catch_file f (body f w)")
    have "reports_once env f r"
      using assms e c try_file_lambda_reports[of f env maxId w]
        try_file_sagemaker_reports[of f env maxId w] by auto
    then obtain out where "r = Some out" "assignmentId out = doc_id f"
      using ns by (cases r) (simp_all add: reports_once_def)
    then show ?thesis using c id ext by auto
  qed
  have fail: "\<exists>msg. process_files body (f # fs) w rs =
                process_files body fs w (rs @ [failed_with (doc_id f) msg])"
    if "read_file env (full_path f) = Inl e"
    using assms readAssignmentFromLocal_cases(1)[OF that]
    by (auto simp: try_file_lambda_def try_file_sagemaker_def catch_file_thrown)
  show ?thesis using skip num fail base10_integer_numeric by blast
qed


lemma invoke_canonical:
  assumes "axios_post env (requests w)
             \<lparr>req_text = safeText t, req_assignmentId = i, req_analyticsId = a\<rparr> = Resolved code B"
    and "code < 400" "is_dynamodb_format B = Inr True"
  shows "invokeModelEndpoint env t i a w = (Inr B, w\<lparr>requests := requests w + 1\<rparr>)"
proof -
  have m: "(1::nat) \<le> MAX_RETRIES" by (simp add: MAX_RETRIES_def)
  have "attempt_once env \<lparr>req_text = safeText t, req_assignmentId = i, req_analyticsId = a\<rparr> w =
          (parse_response env B, w\<lparr>requests := requests w + 1\<rparr>)"
    using assms(1,2) parse_response_canonical(2)[OF assms(3)] by (rule attempt_once_resolved)
  then have "attempt_once env \<lparr>req_text = safeText t, req_assignmentId = i, req_analyticsId = a\<rparr> w =
          (Inr B, w\<lparr>requests := requests w + 1\<rparr>)"
    by (simp only: parse_response_canonical(1)[OF assms(3)])
  then show ?thesis unfolding invokeModelEndpoint_def by (rule invoke_from_success[OF m])
qed


lemma sample_result_canonical: "is_dynamodb_format sample_result = Inr True"
  by (simp add: sample_result_def is_dynamodb_format_def get_prop_def js_def truthy_def wrap_def)

lemma save_sample_result:
  "put_item env (puts w) sample_result = None \<Longrightarrow>
   saveAnalysisToDynamoDB env sample_result w = (Inr (), w\<lparr>puts := puts w + 1\<rparr>)"
  by (simp add: saveAnalysisToDynamoDB_def sample_result_def get_prop_def js_def wrap_def)


lemma digit_file_ids:
  "derived_id [49, 46, 116, 120, 116] = [49]"
  "derived_id [50, 46, 116, 120, 116] = [50]"
  "derived_id [51, 46, 116, 120, 116] = [51]"
  "derived_id [52, 46, 116, 120, 116] = [52]"
  "derived_id [53, 46, 116, 120, 116] = [53]"
  "derived_id [55, 46, 116, 120, 116] = [55]"
  by (simp_all add: derived_id_def extname_def)

lemma digit_ids_numeric:
  "string_to_number [49] \<noteq> NaN" "string_to_number [50] \<noteq> NaN" "string_to_number [51] \<noteq> NaN"
  "string_to_number [52] \<noteq> NaN" "string_to_number [53] \<noteq> NaN" "string_to_number [55] \<noteq> NaN"
  by (simp_all add: string_to_number_def trim_def is_space_def parse_radix_def
      parse_unsigned_decimal_def is_digit_def parse_exponent_def js_def)










lemma two_docs_fields:
  "readdir two_docs_env = Inr [js ''7.txt'', js ''abc.txt'']"
  "read_file two_docs_env (full_path (js ''7.txt'')) = Inr (js ''hello world'')"
  "read_file two_docs_env (full_path (js ''abc.txt'')) = Inr (js ''ignored'')"
  "axios_post two_docs_env = (\<lambda>n r. Resolved 200 sample_result)"
  "put_item two_docs_env = (\<lambda>n v. None)"
  by (simp_all add: two_docs_env_def base_env_def full_path_def js_def)

lemma abc_not_numeric:
  "derived_id (js ''abc.txt'') = js ''abc''" "string_to_number (js ''abc'') = NaN"
  "doc_id (js ''abc.txt'') = js ''abc''"
  by (simp_all add: derived_id_def doc_id_def extname_def js_def string_to_number_def trim_def
      is_space_def parse_radix_def parse_unsigned_decimal_def is_digit_def)

theorem non_numeric_skipped_witness:
  "read_file two_docs_env (full_path (js ''abc.txt'')) = Inr (js ''ignored'') \<and>
   string_to_number (derived_id (js ''abc.txt'')) = NaN \<and>
   process_files (try_file_lambda two_docs_env (Fin 0)) [js ''abc.txt''] world0 [] = ([], world0) \<and>
   derived_id (js ''7.txt'') = js ''7'' \<and>
   handler_lambda two_docs_env (Fin 0) world0 =
     (Report [succeeded (js ''7'')], \<lparr>requests = 1, sleeps = [], puts = 1\<rparr>)"
proof -
  let ?body = "try_file_lambda two_docs_env (Fin 0)"
  have nn: "string_to_number (derived_id (js ''abc.txt'')) = NaN"
    by (simp add: abc_not_numeric)
  have skip: "process_files ?body (js ''abc.txt'' # fs) w rs = process_files ?body fs w rs" for fs w rs
    using non_numeric_skipped[of ?body two_docs_env "Fin 0" "js ''abc.txt''" "js ''ignored''" fs w rs]
      two_docs_fields(3) nn by blast
  have d: "derived_id (js ''7.txt'') = js ''7''" using digit_file_ids by (simp add: js_def)
  have n: "string_to_number (js ''7'') \<noteq> NaN" using digit_ids_numeric by (simp add: js_def)
  have e: "ends_with (js ''7.txt'') (js ''.txt'')" "ends_with (js ''abc.txt'') (js ''.txt'')"
    by (simp_all add: ends_with_def js_def)
  have inv: "invokeModelEndpoint two_docs_env t i a w =
               (Inr sample_result, w\<lparr>requests := requests w + 1\<rparr>)" for t i a w
    by (rule invoke_canonical[where code = 200])
       (simp_all add: two_docs_fields sample_result_canonical)
  have seven: "catch_file (js ''7.txt'') (?body (js ''7.txt'') w) =
                 (Some (succeeded (js ''7'')), w\<lparr>requests := requests w + 1, puts := puts w + 1\<rparr>)"
    for w
    by (simp add: try_file_lambda_def readAssignmentFromLocal_def two_docs_fields
        derived_id_def[symmetric] d n inv save_and_report_def save_sample_result
        catch_file_returned succeeded_def)
  let ?w1 = "world0\<lparr>requests := requests world0 + 1, puts := puts world0 + 1\<rparr>"
  have "process_files ?body [js ''7.txt'', js ''abc.txt''] world0 [] =
          process_files ?body [js ''abc.txt''] ?w1 [succeeded (js ''7'')]"
    by (simp add: seven del: process_files.simps(2) add: process_files.simps(2)[of _ "js ''7.txt''"])
  also have "\<dots> = process_files ?body [] ?w1 [succeeded (js ''7'')]"
    by (rule skip)
  finally have "process_files ?body [js ''7.txt'', js ''abc.txt''] world0 [] =
                  ([succeeded (js ''7'')], \<lparr>requests = 1, sleeps = [], puts = 1\<rparr>)"
    by (simp add: world0_def)
  then have run: "handler_lambda two_docs_env (Fin 0) world0 =
     (Report [succeeded (js ''7'')], \<lparr>requests = 1, sleeps = [], puts = 1\<rparr>)"
    by (simp add: handler_lambda_def run_handler_def two_docs_fields(1) e
        del: process_files.simps)
  show ?thesis using two_docs_fields(3) nn skip[of "[]" world0 "[]"] d run by simp
qed

lemma odd_ids_fields:
  "readdir odd_ids_env =
     Inr [js ''3.5.txt'', js ''0x10.txt'', js ''1e3.txt'', js ''Infinity.txt'', js '' .txt'']"
  "read_file odd_ids_env = (\<lambda>p. Inr (js ''An essay.''))"
  "axios_post odd_ids_env = (\<lambda>n r. Resolved 200 sample_result)"
  "put_item odd_ids_env = (\<lambda>n v. None)"
  by (simp_all add: odd_ids_env_def base_env_def)

lemma odd_ids:
  "derived_id (js ''3.5.txt'') = js ''3.5''" "derived_id (js ''0x10.txt'') = js ''0x10''"
  "derived_id (js ''1e3.txt'') = js ''1e3''" "derived_id (js ''Infinity.txt'') = js ''Infinity''"
  "derived_id (js '' .txt'') = js '' ''"
  by (simp_all add: derived_id_def extname_def js_def)

lemma odd_ids_numeric:
  "string_to_number (js ''3.5'') = Fin (7 / 2)" "string_to_number (js ''0x10'') = Fin 16"
  "string_to_number (js ''1e3'') = Fin 1000" "string_to_number (js ''Infinity'') = PosInf"
  "string_to_number (js '' '') = Fin 0"
  by (simp_all add: string_to_number_def js_def trim_def is_space_def parse_radix_def
      parse_unsigned_decimal_def is_digit_def is_hex_digit_def parse_exponent_def digits_value_def
      digit_value_def scale10_def)

lemma odd_ids_not_integers:
  "\<not> base10_integer (js ''3.5'')" "\<not> base10_integer (js ''0x10'')"
  "\<not> base10_integer (js ''1e3'')" "\<not> base10_integer (js ''Infinity'')"
  "\<not> base10_integer (js '' '')"
  by (simp_all add: base10_integer_def js_def is_digit_def)

lemma odd_ids_run:
  "handler_lambda odd_ids_env (Fin 0) world0 =
     (Report [succeeded (js ''3.5''), succeeded (js ''0x10''), succeeded (js ''1e3''),
              succeeded (js ''Infinity''), succeeded (js '' '')],
      \<lparr>requests = 5, sleeps = [], puts = 5\<rparr>)"
proof -
  let ?body = "try_file_lambda odd_ids_env (Fin 0)"
  have inv: "invokeModelEndpoint odd_ids_env t i a w =
               (Inr sample_result, w\<lparr>requests := requests w + 1\<rparr>)" for t i a w
    by (rule invoke_canonical[where code = 200])
       (simp_all add: odd_ids_fields sample_result_canonical)
  have ok: "catch_file f (?body f w) =
              (Some (succeeded (derived_id f)), w\<lparr>requests := requests w + 1, puts := puts w + 1\<rparr>)"
    if "string_to_number (derived_id f) \<noteq> NaN" for f w
    using that
    by (simp add: try_file_lambda_def readAssignmentFromLocal_def odd_ids_fields
        derived_id_def[symmetric] inv save_and_report_def save_sample_result
        catch_file_returned succeeded_def)
  have f1: "catch_file (js ''3.5.txt'') (?body (js ''3.5.txt'') w) =
              (Some (succeeded (js ''3.5'')), w\<lparr>requests := requests w + 1, puts := puts w + 1\<rparr>)" for w
    using ok[of "js ''3.5.txt''" w] by (simp add: odd_ids odd_ids_numeric)
  have f2: "catch_file (js ''0x10.txt'') (?body (js ''0x10.txt'') w) =
              (Some (succeeded (js ''0x10'')), w\<lparr>requests := requests w + 1, puts := puts w + 1\<rparr>)" for w
    using ok[of "js ''0x10.txt''" w] by (simp add: odd_ids odd_ids_numeric)
  have f3: "catch_file (js ''1e3.txt'') (?body (js ''1e3.txt'') w) =
              (Some (succeeded (js ''1e3'')), w\<lparr>requests := requests w + 1, puts := puts w + 1\<rparr>)" for w
    using ok[of "js ''1e3.txt''" w] by (simp add: odd_ids odd_ids_numeric)
  have f4: "catch_file (js ''Infinity.txt'') (?body (js ''Infinity.txt'') w) =
              (Some (succeeded (js ''Infinity'')), w\<lparr>requests := requests w + 1, puts := puts w + 1\<rparr>)" for w
    using ok[of "js ''Infinity.txt''" w] by (simp add: odd_ids odd_ids_numeric)
  have f5: "catch_file (js '' .txt'') (?body (js '' .txt'') w) =
              (Some (succeeded (js '' '')), w\<lparr>requests := requests w + 1, puts := puts w + 1\<rparr>)" for w
    using ok[of "js '' .txt''" w] by (simp add: odd_ids odd_ids_numeric)
  have e: "ends_with (js ''3.5.txt'') (js ''.txt'')" "ends_with (js ''0x10.txt'') (js ''.txt'')"
    "ends_with (js ''1e3.txt'') (js ''.txt'')" "ends_with (js ''Infinity.txt'') (js ''.txt'')"
    "ends_with (js '' .txt'') (js ''.txt'')"
    by (simp_all add: ends_with_def js_def)
  show ?thesis
    by (simp add: handler_lambda_def run_handler_def odd_ids_fields(1) e f1 f2 f3 f4 f5 world0_def)
qed

theorem non_numeric_skipped_counterexample:
  "string_to_number (derived_id (js ''abc.txt'')) = NaN \<and>
   handler_lambda unreadable_env (Fin 0) world0 =
     (Report [failed_with (js ''abc'')
                (js ''Failed to read file converted/abc.txt: EISDIR: illegal operation on a directory, read'')],
      world0) \<and>
   \<not> base10_integer (js ''3.5'') \<and> \<not> base10_integer (js ''0x10'') \<and>
   \<not> base10_integer (js ''1e3'') \<and> \<not> base10_integer (js ''Infinity'') \<and>
   \<not> base10_integer (js '' '') \<and>
   handler_lambda odd_ids_env (Fin 0) world0 =
     (Report [succeeded (js ''3.5''), succeeded (js ''0x10''), succeeded (js ''1e3''),
              succeeded (js ''Infinity''), succeeded (js '' '')],
      \<lparr>requests = 5, sleeps = [], puts = 5\<rparr>)"
proof -
  have f: "readdir unreadable_env = Inr [js ''abc.txt'']"
    "read_file unreadable_env =
       (\<lambda>p. Inl (new_Error (js ''EISDIR: illegal operation on a directory, read'')))"
    by (simp_all add: unreadable_env_def base_env_def)
  have e: "ends_with (js ''abc.txt'') (js ''.txt'')" by (simp add: ends_with_def js_def)
  have msg: "js ''Failed to read file '' @ full_path (js ''abc.txt'') @ js '': '' @
             js ''EISDIR: illegal operation on a directory, read'' =
             js ''Failed to read file converted/abc.txt: EISDIR: illegal operation on a directory, read''"
    by (simp add: full_path_def js_def)
  have "handler_lambda unreadable_env (Fin 0) world0 =
     (Report [failed_with (js ''abc'')
                (js ''Failed to read file converted/abc.txt: EISDIR: illegal operation on a directory, read'')],
      world0)"
    by (simp add: handler_lambda_def run_handler_def f e try_file_lambda_def
        readAssignmentFromLocal_def catch_file_thrown abc_not_numeric new_Error_def msg)
  then show ?thesis using odd_ids_not_integers odd_ids_run by (simp add: abc_not_numeric)
qed

end
